theory Spec2Isabelle
  imports Complex_Main
begin

section \<open>Numbers, points and configuration\<close>

text \<open>
  JavaScript numbers are modelled as mathematical reals: rounding, NaN, the infinities
  and signed zeros are outside the model. Grid columns, rows and cell indices are the
  integers that \<open>Math.floor\<close> and \<open>Math.ceil\<close> produce.
\<close>

record point =
  px :: real
  py :: real

text \<open>The fields of the global \<open>CONFIG\<close> object that the modelled code reads.\<close>

record config =
  paused :: bool
  speedMultiplier :: real
  timeStep :: real
  antMaxCount :: nat
  antSize :: real
  antSpeed :: real
  antTurnSpeed :: real
  sensorAngle :: real
  sensorDistance :: real
  antExplorationRate :: real
  spawnRate :: real
  energyCapacity :: real
  energyConsumption :: real
  carrierSpeed :: real
  returnHomeBias :: real
  toFoodStrength :: real
  toFoodEvaporationRate :: real
  toFoodDiffusionRate :: real
  toNestStrength :: real
  toNestEvaporationRate :: real
  toNestDiffusionRate :: real
  maxIntensity :: real
  foodSize :: real
  respawnEnabled :: bool
  respawnRate :: real
  nestSize :: real
  showPheromones :: bool
  pheromoneFadeThreshold :: real
  trailHistory :: bool
  trailHistoryLength :: nat

section \<open>PheromoneSystem (js/pheromone.js)\<close>

text \<open>
  The two grids are arrays of length \<open>cols * rows\<close> in row-major order. The two
  canvases only matter through being present or absent (\<open>hasCanvas\<close>); what is drawn on
  them is not modelled.
\<close>

record PheromoneSystem =
  resolution :: real
  cols :: int
  rows :: int
  toFoodGrid :: "real list"
  toNestGrid :: "real list"
  neighbors :: "nat list list"
  dirtyRegions :: "nat set"
  hasCanvas :: bool
  visualizationNeedsUpdate :: bool

text \<open>
  \<open>deposit\<close>, \<open>getPheromoneAt\<close> and \<open>sensePheromone\<close> receive one of the two grid
  arrays by reference; the model passes the name of the channel to the writer and the
  array itself to the readers.
\<close>

datatype channel = ToFood | ToNest

fun other_channel :: "channel \<Rightarrow> channel" where
  "other_channel ToFood = ToNest"
| "other_channel ToNest = ToFood"

fun grid_of :: "channel \<Rightarrow> PheromoneSystem \<Rightarrow> real list" where
  "grid_of ToFood ps = toFoodGrid ps"
| "grid_of ToNest ps = toNestGrid ps"

fun set_grid :: "channel \<Rightarrow> real list \<Rightarrow> PheromoneSystem \<Rightarrow> PheromoneSystem" where
  "set_grid ToFood g ps = ps\<lparr>toFoodGrid := g\<rparr>"
| "set_grid ToNest g ps = ps\<lparr>toNestGrid := g\<rparr>"

text \<open>\<open>getNeighborIndices(col, row)\<close>: the in-bounds Moore neighbours, \<open>y\<close> outer, \<open>x\<close> inner.\<close>

definition getNeighborIndices :: "int \<Rightarrow> int \<Rightarrow> int \<Rightarrow> int \<Rightarrow> nat list" where
  "getNeighborIndices cs rs col row =
     concat (map (\<lambda>y. concat (map (\<lambda>x.
        if x = 0 \<and> y = 0 then []
        else (let newCol = col + x; newRow = row + y
              in if newCol \<ge> 0 \<and> newCol < cs \<and> newRow \<ge> 0 \<and> newRow < rs
                 then [nat (newRow * cs + newCol)] else []))
        [-1, 0, 1])) [-1, 0, 1])"

text \<open>
  The constructor's and \<open>resize\<close>'s neighbour table: entry \<open>row * cols + col\<close> is
  \<open>getNeighborIndices(col, row)\<close>. With a negative dimension the loops do not run and
  the array keeps its \<open>cols * rows\<close> empty slots, written \<open>[]\<close> here.
\<close>

definition build_neighbors :: "int \<Rightarrow> int \<Rightarrow> nat list list" where
  "build_neighbors cs rs =
     (if 0 \<le> cs \<and> 0 \<le> rs
      then concat (map (\<lambda>row. map (\<lambda>col. getNeighborIndices cs rs col row) [0..cs - 1]) [0..rs - 1])
      else replicate (nat (cs * rs)) [])"

definition posToIndex :: "PheromoneSystem \<Rightarrow> point \<Rightarrow> int" where
  "posToIndex ps position =
     (let col = \<lfloor>px position / resolution ps\<rfloor>;
          row = \<lfloor>py position / resolution ps\<rfloor>
      in if col < 0 \<or> col \<ge> cols ps \<or> row < 0 \<or> row \<ge> rows ps then -1
         else row * cols ps + col)"

definition deposit :: "config \<Rightarrow> channel \<Rightarrow> point \<Rightarrow> real \<Rightarrow> PheromoneSystem \<Rightarrow> PheromoneSystem" where
  "deposit cfg ch position amount ps =
     (let index = posToIndex ps position
      in if index \<noteq> -1
         then (set_grid ch ((grid_of ch ps)[nat index :=
                  min (grid_of ch ps ! nat index + amount) (maxIntensity cfg)]) ps)
               \<lparr>dirtyRegions := insert (nat index) (dirtyRegions ps),
                visualizationNeedsUpdate := True\<rparr>
         else ps)"

definition depositToFood :: "config \<Rightarrow> point \<Rightarrow> real \<Rightarrow> PheromoneSystem \<Rightarrow> PheromoneSystem" where
  "depositToFood cfg position amount ps = deposit cfg ToFood position amount ps"

definition depositToNest :: "config \<Rightarrow> point \<Rightarrow> real \<Rightarrow> PheromoneSystem \<Rightarrow> PheromoneSystem" where
  "depositToNest cfg position amount ps = deposit cfg ToNest position amount ps"

text \<open>
  The readers are methods of the object; they return their value together with the
  object as they leave it.
\<close>

definition getPheromoneAt :: "real list \<Rightarrow> point \<Rightarrow> PheromoneSystem \<Rightarrow> real \<times> PheromoneSystem" where
  "getPheromoneAt grid position ps =
     (let index = posToIndex ps position
      in if index \<noteq> -1 then (grid ! nat index, ps) else (0, ps))"

record sensors =
  forward :: real
  left :: real
  right :: real

definition sensePheromone ::
  "real list \<Rightarrow> point \<Rightarrow> real \<Rightarrow> real \<Rightarrow> real \<Rightarrow> PheromoneSystem \<Rightarrow> sensors \<times> PheromoneSystem" where
  "sensePheromone grid position angle sAngle sDistance ps =
     (let leftSensorAngle = angle - sAngle;
          rightSensorAngle = angle + sAngle;
          forwardSensor = \<lparr>px = px position + cos angle * sDistance,
                           py = py position + sin angle * sDistance\<rparr>;
          leftSensor = \<lparr>px = px position + cos leftSensorAngle * sDistance,
                        py = py position + sin leftSensorAngle * sDistance\<rparr>;
          rightSensor = \<lparr>px = px position + cos rightSensorAngle * sDistance,
                         py = py position + sin rightSensorAngle * sDistance\<rparr>;
          (forwardValue, ps1) = getPheromoneAt grid forwardSensor ps;
          (leftValue, ps2) = getPheromoneAt grid leftSensor ps1;
          (rightValue, ps3) = getPheromoneAt grid rightSensor ps2
      in (\<lparr>forward = forwardValue, left = leftValue, right = rightValue\<rparr>, ps3))"

text \<open>
  The class invariant that the constructor and \<open>resize\<close> establish: both grids have
  \<open>cols * rows\<close> cells, and the neighbour table is the one built for these dimensions.
  A zero resolution is excluded (the division would not give a number).
\<close>

definition ps_wf :: "PheromoneSystem \<Rightarrow> bool" where
  "ps_wf ps \<longleftrightarrow>
     resolution ps \<noteq> 0 \<and> 0 \<le> cols ps \<and> 0 \<le> rows ps \<and>
     length (toFoodGrid ps) = nat (cols ps * rows ps) \<and>
     length (toNestGrid ps) = nat (cols ps * rows ps) \<and>
     neighbors ps = build_neighbors (cols ps) (rows ps)"

text \<open>All cells of both channels lie in \<open>[0, maxIntensity]\<close>.\<close>

definition in_range :: "config \<Rightarrow> PheromoneSystem \<Rightarrow> bool" where
  "in_range cfg ps \<longleftrightarrow>
     list_all (\<lambda>v. 0 \<le> v \<and> v \<le> maxIntensity cfg) (toFoodGrid ps) \<and>
     list_all (\<lambda>v. 0 \<le> v \<and> v \<le> maxIntensity cfg) (toNestGrid ps)"

section \<open>The evaporation and diffusion pass\<close>

fun evaporationRate :: "config \<Rightarrow> channel \<Rightarrow> real" where
  "evaporationRate cfg ToFood = toFoodEvaporationRate cfg"
| "evaporationRate cfg ToNest = toNestEvaporationRate cfg"

fun diffusionRate :: "config \<Rightarrow> channel \<Rightarrow> real" where
  "diffusionRate cfg ToFood = toFoodDiffusionRate cfg"
| "diffusionRate cfg ToNest = toNestDiffusionRate cfg"

text \<open>
  The state of the loop in \<open>update\<close>: the two temporary grids \<open>toFoodNext\<close> and
  \<open>toNestNext\<close>, and the set of dirty cells.
\<close>

type_synonym next_grids = "real list \<times> real list \<times> nat set"

text \<open>
  One channel's share of the body of \<open>for (const neighborIdx of neighbors)\<close>:
  \<open>next[neighborIdx] += diffAmount; next[i] -= diffAmount\<close>.
\<close>

definition diffuse_to :: "nat \<Rightarrow> real \<Rightarrow> nat \<Rightarrow> real list \<Rightarrow> real list" where
  "diffuse_to i diffAmount neighborIdx nxt =
     (let a = nxt[neighborIdx := nxt ! neighborIdx + diffAmount]
      in a[i := a ! i - diffAmount])"

definition diffuse_neighbor ::
  "config \<Rightarrow> nat \<Rightarrow> real \<Rightarrow> real \<Rightarrow> nat \<Rightarrow> nat \<Rightarrow> next_grids \<Rightarrow> next_grids" where
  "diffuse_neighbor cfg i toFoodValue toNestValue nlen neighborIdx st =
     (case st of (toFoodNext, toNestNext, dirty) \<Rightarrow>
        let threshold = pheromoneFadeThreshold cfg;
            (toFoodNext1, dirty1) =
               (if toFoodValue > threshold
                then (diffuse_to i (toFoodValue * toFoodDiffusionRate cfg / real nlen)
                        neighborIdx toFoodNext, insert neighborIdx dirty)
                else (toFoodNext, dirty));
            (toNestNext1, dirty2) =
               (if toNestValue > threshold
                then (diffuse_to i (toNestValue * toNestDiffusionRate cfg / real nlen)
                        neighborIdx toNestNext, insert neighborIdx dirty1)
                else (toNestNext, dirty1))
        in (toFoodNext1, toNestNext1, dirty2))"

text \<open>
  The evaporation of one value: the value after \<open>if (v > threshold) { v *= rate;
  if (v < threshold) v = 0; }\<close>.
\<close>

definition evaporated :: "real \<Rightarrow> real \<Rightarrow> real \<Rightarrow> real" where
  "evaporated threshold rate v =
     (if v > threshold then (let v' = v * rate in if v' < threshold then 0 else v') else v)"

text \<open>The body of \<open>for (let i = 0; i < this.toFoodGrid.length; i++)\<close>.\<close>

definition update_cell :: "config \<Rightarrow> PheromoneSystem \<Rightarrow> nat \<Rightarrow> next_grids \<Rightarrow> next_grids" where
  "update_cell cfg ps i st =
     (case st of (toFoodNext, toNestNext, dirty) \<Rightarrow>
        let threshold = pheromoneFadeThreshold cfg;
            toFoodValue = evaporated threshold (toFoodEvaporationRate cfg) (toFoodGrid ps ! i);
            (toFoodNext1, dirty1) =
               (if toFoodGrid ps ! i > threshold
                then (toFoodNext[i := toFoodValue], insert i dirty)
                else (toFoodNext, dirty));
            toNestValue = evaporated threshold (toNestEvaporationRate cfg) (toNestGrid ps ! i);
            (toNestNext1, dirty2) =
               (if toNestGrid ps ! i > threshold
                then (toNestNext[i := toNestValue], insert i dirty1)
                else (toNestNext, dirty1))
        in if toFoodValue > threshold \<or> toNestValue > threshold
           then fold (diffuse_neighbor cfg i toFoodValue toNestValue (length (neighbors ps ! i)))
                  (neighbors ps ! i) (toFoodNext1, toNestNext1, dirty2)
           else (toFoodNext1, toNestNext1, dirty2))"

text \<open>
  \<open>updateAllVisualizations\<close> redraws the canvases (not modelled) and empties the set
  of dirty cells; without canvases it returns at once.
\<close>

definition updateAllVisualizations :: "PheromoneSystem \<Rightarrow> PheromoneSystem" where
  "updateAllVisualizations ps = (if \<not> hasCanvas ps then ps else ps\<lparr>dirtyRegions := {}\<rparr>)"

definition updateVisualizations :: "PheromoneSystem \<Rightarrow> PheromoneSystem" where
  "updateVisualizations ps = (if \<not> hasCanvas ps then ps else updateAllVisualizations ps)"

definition PheromoneSystem_update :: "config \<Rightarrow> PheromoneSystem \<Rightarrow> PheromoneSystem" where
  "PheromoneSystem_update cfg ps =
     (if paused cfg then ps
      else (case fold (update_cell cfg ps) [0..<length (toFoodGrid ps)]
                   (toFoodGrid ps, toNestGrid ps, dirtyRegions ps) of
              (toFoodNext, toNestNext, dirty) \<Rightarrow>
                let ps1 = ps\<lparr>toFoodGrid := toFoodNext, toNestGrid := toNestNext,
                             dirtyRegions := dirty\<rparr>
                in if visualizationNeedsUpdate ps1 \<and> showPheromones cfg
                   then (updateVisualizations ps1)\<lparr>visualizationNeedsUpdate := False\<rparr>
                   else ps1))"

text \<open>
  What \<open>update_cell\<close> does to one of the two temporary grids, written for that grid
  alone (the two channels share the loop but not their values); \<open>update_cell_food\<close>
  and \<open>update_cell_nest\<close> below show that it is the same computation.
\<close>

definition channel_cell ::
  "real \<Rightarrow> real \<Rightarrow> real \<Rightarrow> real list \<Rightarrow> nat list list \<Rightarrow> nat \<Rightarrow> real list \<Rightarrow> real list" where
  "channel_cell threshold rate drate g nb i nxt =
     (let v = evaporated threshold rate (g ! i);
          nxt1 = (if g ! i > threshold then nxt[i := v] else nxt)
      in if v > threshold
         then fold (diffuse_to i (v * drate / real (length (nb ! i)))) (nb ! i) nxt1
         else nxt1)"

definition channel_pass :: "config \<Rightarrow> channel \<Rightarrow> PheromoneSystem \<Rightarrow> real list" where
  "channel_pass cfg ch ps =
     fold (channel_cell (pheromoneFadeThreshold cfg) (evaporationRate cfg ch)
             (diffusionRate cfg ch) (grid_of ch ps) (neighbors ps))
       [0..<length (toFoodGrid ps)] (grid_of ch ps)"

section \<open>Clearing and resizing\<close>

definition clear :: "PheromoneSystem \<Rightarrow> PheromoneSystem" where
  "clear ps =
     updateAllVisualizations
       (ps\<lparr>toFoodGrid := replicate (length (toFoodGrid ps)) 0,
           toNestGrid := replicate (length (toNestGrid ps)) 0,
           dirtyRegions := {0..<length (toFoodGrid ps)},
           visualizationNeedsUpdate := True\<rparr>)"

text \<open>
  The copy loop of \<open>resize\<close>: \<open>new[row * newCols + col] = old[row * cols + col] || 0\<close>
  for the rows and columns both grids have (\<open>v || 0\<close> is \<open>v\<close> for a number \<open>v\<close>).
\<close>

definition copy_cells :: "int \<Rightarrow> int \<Rightarrow> int \<Rightarrow> int \<Rightarrow> real list \<Rightarrow> real list \<Rightarrow> real list" where
  "copy_cells oldCols newCols nrows ncols old new =
     fold (\<lambda>row acc.
        fold (\<lambda>col acc'. acc'[nat (row * newCols + col) := old ! nat (row * oldCols + col)])
          [0..ncols - 1] acc)
       [0..nrows - 1] new"

text \<open>
  \<open>new Array(n)\<close> throws a RangeError unless \<open>n\<close> is an array length, an integer
  from 0 to \<open>2^32 - 1\<close>: the result \<open>None\<close>. The product of the two ceilings is
  an integer.
\<close>

definition resize :: "real \<Rightarrow> real \<Rightarrow> PheromoneSystem \<Rightarrow> PheromoneSystem option" where
  "resize width height ps =
     (let newCols = \<lceil>width / resolution ps\<rceil>;
          newRows = \<lceil>height / resolution ps\<rceil>
      in if newCols * newRows < 0 \<or> newCols * newRows > 2 ^ 32 - 1 then None
         else
           let zeros = replicate (nat (newCols * newRows)) 0;
               newToFoodGrid = copy_cells (cols ps) newCols (min (rows ps) newRows)
                                 (min (cols ps) newCols) (toFoodGrid ps) zeros;
               newToNestGrid = copy_cells (cols ps) newCols (min (rows ps) newRows)
                                 (min (cols ps) newCols) (toNestGrid ps) zeros;
               ps1 = ps\<lparr>cols := newCols, rows := newRows,
                         toFoodGrid := newToFoodGrid, toNestGrid := newToNestGrid,
                         neighbors := build_neighbors newCols newRows\<rparr>
           in if hasCanvas ps1
              then Some (updateAllVisualizations
                     (ps1\<lparr>dirtyRegions := {0..<length (toFoodGrid ps1)},
                          visualizationNeedsUpdate := True\<rparr>))
              else Some ps1)"

section \<open>SpatialGrid (js/utils.js)\<close>

text \<open>
  A bucket holds the entities inserted into its cell. An entity is any object with a
  position and the index of the bucket it was put in (\<open>None\<close> for \<open>undefined\<close>):
  ants, food sources and obstacles are entities with more fields.
\<close>

record positioned =
  position :: point

record entity = positioned +
  gridIndex :: "int option"

record SpatialGrid =
  cellSize :: real
  sg_cols :: int
  sg_rows :: int
  sg_grid :: "entity list list"

definition SpatialGrid_posToIndex :: "SpatialGrid \<Rightarrow> point \<Rightarrow> int" where
  "SpatialGrid_posToIndex g pos =
     (let col = \<lfloor>px pos / cellSize g\<rfloor>;
          row = \<lfloor>py pos / cellSize g\<rfloor>
      in if col < 0 \<or> col \<ge> sg_cols g \<or> row < 0 \<or> row \<ge> sg_rows g then -1
         else row * sg_cols g + col)"

text \<open>\<open>insert(entity)\<close> returns the entity with its bucket index set, and the grid.\<close>

definition SpatialGrid_insert :: "entity \<Rightarrow> SpatialGrid \<Rightarrow> entity \<times> SpatialGrid" where
  "SpatialGrid_insert e g =
     (let index = SpatialGrid_posToIndex g (position e)
      in if index \<noteq> -1
         then (let e' = e\<lparr>gridIndex := Some index\<rparr>
               in (e', g\<lparr>sg_grid := (sg_grid g)[nat index := sg_grid g ! nat index @ [e']]\<rparr>))
         else (e, g))"

definition queryPosition :: "SpatialGrid \<Rightarrow> point \<Rightarrow> entity list" where
  "queryPosition g pos =
     (let index = SpatialGrid_posToIndex g pos
      in if index \<noteq> -1 then sg_grid g ! nat index else [])"

definition queryRadius :: "SpatialGrid \<Rightarrow> point \<Rightarrow> real \<Rightarrow> entity list" where
  "queryRadius g pos radius =
     (let minCol = max 0 \<lfloor>(px pos - radius) / cellSize g\<rfloor>;
          maxCol = min (sg_cols g - 1) \<lfloor>(px pos + radius) / cellSize g\<rfloor>;
          minRow = max 0 \<lfloor>(py pos - radius) / cellSize g\<rfloor>;
          maxRow = min (sg_rows g - 1) \<lfloor>(py pos + radius) / cellSize g\<rfloor>
      in concat (map (\<lambda>row. concat (map (\<lambda>col. sg_grid g ! nat (row * sg_cols g + col))
                                    [minCol..maxCol])) [minRow..maxRow]))"

text \<open>The operations of \<open>Vector\<close> that the modelled code calls.\<close>

definition Vector_subtract :: "point \<Rightarrow> point \<Rightarrow> point" where
  "Vector_subtract v1 v2 = \<lparr>px = px v1 - px v2, py = py v1 - py v2\<rparr>"

definition Vector_magnitude :: "point \<Rightarrow> real" where
  "Vector_magnitude v = sqrt (px v * px v + py v * py v)"

definition Vector_normalize :: "point \<Rightarrow> point" where
  "Vector_normalize v =
     (let mag = Vector_magnitude v
      in if mag = 0 then \<lparr>px = 0, py = 0\<rparr> else \<lparr>px = px v / mag, py = py v / mag\<rparr>)"

definition distance :: "point \<Rightarrow> point \<Rightarrow> real" where
  "distance v1 v2 = Vector_magnitude (Vector_subtract v1 v2)"

text \<open>
  The words of the specification for \<open>queryRadius\<close>. The cell \<open>(col, row)\<close> is the
  square of the positions that \<open>posToIndex\<close> sends to it, \<open>col * cellSize \<le> x <
  (col + 1) * cellSize\<close> and likewise for \<open>y\<close>; the bounding box of the query circle is
  \<open>[x - radius, x + radius] \<times> [y - radius, y + radius]\<close>. The two overlap when they do
  on both axes.
\<close>

definition cell_overlaps_box :: "SpatialGrid \<Rightarrow> int \<Rightarrow> int \<Rightarrow> point \<Rightarrow> real \<Rightarrow> bool" where
  "cell_overlaps_box g col row pos radius \<longleftrightarrow>
     of_int col * cellSize g \<le> px pos + radius \<and>
     px pos - radius < (of_int col + 1) * cellSize g \<and>
     of_int row * cellSize g \<le> py pos + radius \<and>
     py pos - radius < (of_int row + 1) * cellSize g"

definition in_bounds_cell :: "SpatialGrid \<Rightarrow> int \<Rightarrow> int \<Rightarrow> bool" where
  "in_bounds_cell g col row \<longleftrightarrow> 0 \<le> col \<and> col < sg_cols g \<and> 0 \<le> row \<and> row < sg_rows g"

section \<open>Food, obstacles and the nest\<close>

text \<open>
  \<open>Math.atan2\<close>, from the arc tangent, and the remainder operator \<open>%\<close> on numbers
  (the result has the sign of the dividend).
\<close>

definition atan2 :: "real \<Rightarrow> real \<Rightarrow> real" where
  "atan2 b a =
     (if a > 0 then arctan (b / a)
      else if a < 0 then (if b \<ge> 0 then arctan (b / a) + pi else arctan (b / a) - pi)
      else if b > 0 then pi / 2 else if b < 0 then - pi / 2 else 0)"

definition js_rem :: "real \<Rightarrow> real \<Rightarrow> real" where
  "js_rem a n = a - n * of_int (if a / n \<ge> 0 then \<lfloor>a / n\<rfloor> else \<lceil>a / n\<rceil>)"

text \<open>\<open>MathUtils.angleDiff\<close>.\<close>

definition angleDiff :: "real \<Rightarrow> real \<Rightarrow> real" where
  "angleDiff a b =
     (let diff = js_rem (b - a) (2 * pi);
          diff1 = (if diff > pi then diff - 2 * pi else diff)
      in if diff1 < - pi then diff1 + 2 * pi else diff1)"

text \<open>
  A food source (\<open>Food\<close>). Its particles and jitter are drawing data and are left out.
\<close>

record Food = entity +
  quantity :: real
  initialQuantity :: real
  food_size :: real
  depleted :: bool
  displayRadius :: real

definition Food_take :: "real \<Rightarrow> Food \<Rightarrow> real \<times> Food" where
  "Food_take amount food =
     (let amount' = min amount (quantity food);
          food1 = food\<lparr>quantity := quantity food - amount'\<rparr>;
          food2 = food1\<lparr>displayRadius := sqrt (quantity food1) * food_size food1 * 0.25\<rparr>;
          food3 = (if quantity food2 \<le> 0 then food2\<lparr>depleted := True\<rparr> else food2)
      in (amount', food3))"

definition Food_update :: "config \<Rightarrow> Food \<Rightarrow> Food" where
  "Food_update cfg food =
     (if respawnEnabled cfg \<and> quantity food < initialQuantity food
      then (let food1 = food\<lparr>quantity := quantity food + respawnRate cfg * speedMultiplier cfg\<rparr>;
                food2 = food1\<lparr>quantity := min (quantity food1) (initialQuantity food1)\<rparr>;
                food3 = food2\<lparr>depleted := False\<rparr>
            in food3\<lparr>displayRadius := sqrt (quantity food3) * food_size food3 * 0.25\<rparr>)
      else food)"

definition canCollect :: "config \<Rightarrow> Food \<Rightarrow> point \<Rightarrow> bool" where
  "canCollect cfg food antPosition =
     (let dist = distance (position food) antPosition
      in \<not> depleted food \<and> dist < displayRadius food + antSize cfg)"

text \<open>
  \<open>FoodManager.canAntCollectFood\<close> returns the first food source of the list that the
  ant can collect from; the model returns its place in the list, which stands for the
  reference.
\<close>

fun canAntCollectFood :: "config \<Rightarrow> Food list \<Rightarrow> point \<Rightarrow> nat option" where
  "canAntCollectFood cfg [] antPosition = None"
| "canAntCollectFood cfg (food # foods) antPosition =
     (if canCollect cfg food antPosition then Some 0
      else map_option Suc (canAntCollectFood cfg foods antPosition))"

definition FoodManager_update :: "config \<Rightarrow> Food list \<Rightarrow> Food list" where
  "FoodManager_update cfg foods = (if paused cfg then foods else map (Food_update cfg) foods)"

record Obstacle = entity +
  radius :: real

record Nest = positioned +
  nest_size :: real
  foodStored :: real

definition Nest_contains :: "Nest \<Rightarrow> point \<Rightarrow> bool" where
  "Nest_contains n p \<longleftrightarrow> distance (position n) p < nest_size n + 0"

definition storeFood :: "real \<Rightarrow> Nest \<Rightarrow> Nest" where
  "storeFood amount n = n\<lparr>foodStored := foodStored n + amount\<rparr>"

section \<open>Ants (the Ant and AntColony classes)\<close>

datatype ant_state = Searching | Returning

text \<open>
  The fields of an ant that its update reads or writes. Size, colour and antennae are
  drawing data.
\<close>

record Ant = entity +
  ident :: nat
  nestPosition :: point
  direction :: real
  speed :: real
  turnSpeed :: real
  carryingFood :: real
  state :: ant_state
  energy :: real
  isAlive :: bool
  trail :: "point list"
  trailMaxLength :: nat
  lastDepositionTime :: nat
  depositionInterval :: nat
  explorationRate :: real

record AntColony =
  colony_nestPosition :: point
  ants :: "Ant list"
  antIdCounter :: nat

text \<open>
  The simulation object that every update receives. \<open>Math.random()\<close> is the only
  source of chance: the \<open>k\<close>-th call of a run returns \<open>rnd k\<close> for a sequence \<open>rnd\<close>
  given from outside, and \<open>randomCalls\<close> counts the calls made so far. The performance
  monitor, the user interface and the day and night cycle are display only.
\<close>

record Simulation =
  width :: real
  height :: real
  time :: real
  nest :: Nest
  antColony :: AntColony
  foodManager :: "Food list"
  obstacleManager :: "Obstacle list"
  pheromoneSystem :: PheromoneSystem
  initialized :: bool
  randomCalls :: nat

definition Math_random :: "(nat \<Rightarrow> real) \<Rightarrow> Simulation \<Rightarrow> real \<times> Simulation" where
  "Math_random rnd sim = (rnd (randomCalls sim), sim\<lparr>randomCalls := Suc (randomCalls sim)\<rparr>)"

text \<open>
  The particle effects are drawing data; what they leave behind in the model is their
  calls of \<open>Math.random()\<close>: three particles with four calls each for
  \<open>createFoodParticleEffect\<close>, three particles with two calls each for
  \<open>createFoodStorageEffect\<close>.
\<close>

definition createFoodParticleEffect :: "Simulation \<Rightarrow> Simulation" where
  "createFoodParticleEffect sim = sim\<lparr>randomCalls := randomCalls sim + 12\<rparr>"

definition createFoodStorageEffect :: "Simulation \<Rightarrow> Simulation" where
  "createFoodStorageEffect sim = sim\<lparr>randomCalls := randomCalls sim + 6\<rparr>"

text \<open>\<open>ObstacleManager.calculateAvoidanceForce\<close>; \<open>None\<close> is \<open>null\<close>.\<close>

definition calculateAvoidanceForce :: "config \<Rightarrow> Obstacle list \<Rightarrow> Ant \<Rightarrow> point option" where
  "calculateAvoidanceForce cfg obstacles ant =
     (let avoidanceRadius = sensorDistance cfg * 1.5;
          (avoidanceForce, nearObstacle) =
             fold (\<lambda>obstacle (force, near).
                let dist = distance (position ant) (position obstacle)
                in if dist < radius obstacle + avoidanceRadius
                   then (let awayDirection = Vector_subtract (position ant) (position obstacle);
                             awayNorm = Vector_normalize awayDirection;
                             forceMagnitude = max 0 (1 - (dist - radius obstacle) / avoidanceRadius)
                         in (\<lparr>px = px force + px awayNorm * forceMagnitude * 2,
                              py = py force + py awayNorm * forceMagnitude * 2\<rparr>, True))
                   else (force, near))
               obstacles (\<lparr>px = 0, py = 0\<rparr>, False)
      in if nearObstacle then Some (Vector_normalize avoidanceForce) else None)"

definition calculateDirectionToNest :: "Ant \<Rightarrow> real" where
  "calculateDirectionToNest ant =
     (let dx = px (nestPosition ant) - px (position ant);
          dy = py (nestPosition ant) - py (position ant)
      in atan2 dy dx)"

definition searchForFood :: "(nat \<Rightarrow> real) \<Rightarrow> config \<Rightarrow> Ant \<Rightarrow> Simulation \<Rightarrow> Ant \<times> Simulation" where
  "searchForFood rnd cfg ant sim =
     (case canAntCollectFood cfg (foodManager sim) (position ant) of
        Some k \<Rightarrow>
          (let (taken, food') = Food_take 1 (foodManager sim ! k);
               sim1 = sim\<lparr>foodManager := (foodManager sim)[k := food']\<rparr>;
               ant1 = ant\<lparr>carryingFood := taken\<rparr>
           in if carryingFood ant1 > 0
              then (ant1\<lparr>state := Returning, direction := calculateDirectionToNest ant1\<rparr>,
                    createFoodParticleEffect sim1)
              else (ant1, sim1))
      | None \<Rightarrow>
          (case calculateAvoidanceForce cfg (obstacleManager sim) ant of
             Some avoidanceForce \<Rightarrow>
               (let avoidanceAngle = atan2 (py avoidanceForce) (px avoidanceForce)
                in (ant\<lparr>direction := direction ant * 0.3 + avoidanceAngle * 0.7\<rparr>, sim))
           | None \<Rightarrow>
               (let (sens, ps') = sensePheromone (toFoodGrid (pheromoneSystem sim)) (position ant)
                                    (direction ant) (sensorAngle cfg) (sensorDistance cfg)
                                    (pheromoneSystem sim);
                    sim1 = sim\<lparr>pheromoneSystem := ps'\<rparr>;
                    (r1, sim2) = Math_random rnd sim1
                in if r1 < explorationRate ant
                   then (let (r2, sim3) = Math_random rnd sim2
                         in (ant\<lparr>direction := direction ant + (r2 - 0.5) * turnSpeed ant * 2\<rparr>, sim3))
                   else (let maxPheromone = max (max (forward sens) (left sens)) (right sens)
                         in if maxPheromone > pheromoneFadeThreshold cfg
                            then (if left sens > forward sens \<and> left sens > right sens
                                  then (ant\<lparr>direction := direction ant - turnSpeed ant\<rparr>, sim2)
                                  else if right sens > forward sens \<and> right sens > left sens
                                  then (ant\<lparr>direction := direction ant + turnSpeed ant\<rparr>, sim2)
                                  else (ant, sim2))
                            else (let (r3, sim3) = Math_random rnd sim2
                                  in (ant\<lparr>direction := direction ant + (r3 - 0.5) * turnSpeed ant\<rparr>,
                                      sim3))))))"

definition returnToNest :: "(nat \<Rightarrow> real) \<Rightarrow> config \<Rightarrow> Ant \<Rightarrow> Simulation \<Rightarrow> Ant \<times> Simulation" where
  "returnToNest rnd cfg ant sim =
     (if Nest_contains (nest sim) (position ant)
      then (let sim1 = sim\<lparr>nest := storeFood (carryingFood ant) (nest sim)\<rparr>;
                sim2 = createFoodStorageEffect sim1;
                ant1 = ant\<lparr>carryingFood := 0, state := Searching\<rparr>;
                (r1, sim3) = Math_random rnd sim2;
                ant2 = ant1\<lparr>direction := direction ant1 + (pi + (r1 - 0.5) * pi / 2)\<rparr>
            in (ant2\<lparr>energy := energyCapacity cfg\<rparr>, sim3))
      else
        (case calculateAvoidanceForce cfg (obstacleManager sim) ant of
           Some avoidanceForce \<Rightarrow>
             (let avoidanceAngle = atan2 (py avoidanceForce) (px avoidanceForce)
              in (ant\<lparr>direction := direction ant * 0.3 + avoidanceAngle * 0.7\<rparr>, sim))
         | None \<Rightarrow>
             (let (sens, ps') = sensePheromone (toNestGrid (pheromoneSystem sim)) (position ant)
                                  (direction ant) (sensorAngle cfg) (sensorDistance cfg)
                                  (pheromoneSystem sim);
                  sim1 = sim\<lparr>pheromoneSystem := ps'\<rparr>;
                  nestVector = \<lparr>px = px (nestPosition ant) - px (position ant),
                                py = py (nestPosition ant) - py (position ant)\<rparr>;
                  distanceToNest = Vector_magnitude nestVector;
                  angleToNest = atan2 (py nestVector) (px nestVector)
              in if distanceToNest < nestSize cfg * 2
                 then (ant\<lparr>direction := angleToNest\<rparr>, sim1)
                 else (let (r1, sim2) = Math_random rnd sim1
                       in if r1 < returnHomeBias cfg
                          then (let diff = angleDiff (direction ant) angleToNest
                                in (ant\<lparr>direction := direction ant +
                                       sgn diff * min \<bar>diff\<bar> (turnSpeed ant)\<rparr>, sim2))
                          else (let maxPheromone = max (max (forward sens) (left sens)) (right sens)
                                in if maxPheromone > pheromoneFadeThreshold cfg
                                   then (if left sens > forward sens \<and> left sens > right sens
                                         then (ant\<lparr>direction := direction ant - turnSpeed ant\<rparr>, sim2)
                                         else if right sens > forward sens \<and> right sens > left sens
                                         then (ant\<lparr>direction := direction ant + turnSpeed ant\<rparr>, sim2)
                                         else (ant, sim2))
                                   else (let diff = angleDiff (direction ant) angleToNest
                                         in (ant\<lparr>direction := direction ant +
                                                sgn diff * min \<bar>diff\<bar> (turnSpeed ant * 0.5)\<rparr>,
                                             sim2)))))))"

definition boundPosition :: "real \<Rightarrow> real \<Rightarrow> Ant \<Rightarrow> Ant" where
  "boundPosition w h ant =
     (let buffer = 10;
          ant1 = (if px (position ant) < buffer
                  then ant\<lparr>position := (position ant)\<lparr>px := buffer\<rparr>,
                           direction := pi - direction ant\<rparr>
                  else if px (position ant) > w - buffer
                  then ant\<lparr>position := (position ant)\<lparr>px := w - buffer\<rparr>,
                           direction := pi - direction ant\<rparr>
                  else ant)
      in if py (position ant1) < buffer
         then ant1\<lparr>position := (position ant1)\<lparr>py := buffer\<rparr>, direction := - direction ant1\<rparr>
         else if py (position ant1) > h - buffer
         then ant1\<lparr>position := (position ant1)\<lparr>py := h - buffer\<rparr>, direction := - direction ant1\<rparr>
         else ant1)"

definition depositPheromones :: "config \<Rightarrow> Ant \<Rightarrow> Simulation \<Rightarrow> Ant \<times> Simulation" where
  "depositPheromones cfg ant sim =
     (let ant1 = ant\<lparr>lastDepositionTime := lastDepositionTime ant + 1\<rparr>
      in if lastDepositionTime ant1 < depositionInterval ant1 then (ant1, sim)
         else (let ant2 = ant1\<lparr>lastDepositionTime := 0\<rparr>
               in case state ant2 of
                    Searching \<Rightarrow>
                      (ant2, sim\<lparr>pheromoneSystem :=
                          depositToNest cfg (position ant2) (toNestStrength cfg * 1)
                            (pheromoneSystem sim)\<rparr>)
                  | Returning \<Rightarrow>
                      (ant2, sim\<lparr>pheromoneSystem :=
                          depositToFood cfg (position ant2) (toFoodStrength cfg * carryingFood ant2)
                            (pheromoneSystem sim)\<rparr>)))"

definition updateTrail :: "Ant \<Rightarrow> Ant" where
  "updateTrail ant =
     (let ant1 = ant\<lparr>trail := trail ant @ [position ant]\<rparr>
      in if length (trail ant1) > trailMaxLength ant1 then ant1\<lparr>trail := tl (trail ant1)\<rparr> else ant1)"

text \<open>\<open>Ant.update(simulation)\<close>.\<close>

definition Ant_update :: "(nat \<Rightarrow> real) \<Rightarrow> config \<Rightarrow> Ant \<Rightarrow> Simulation \<Rightarrow> Ant \<times> Simulation" where
  "Ant_update rnd cfg ant sim =
     (if \<not> isAlive ant \<or> paused cfg then (ant, sim)
      else
        (let ant1 = ant\<lparr>energy := energy ant - energyConsumption cfg * speedMultiplier cfg\<rparr>
         in if energy ant1 \<le> 0 then (ant1\<lparr>isAlive := False\<rparr>, sim)
            else
              (let (ant2, sim2) = (case state ant1 of
                                     Searching \<Rightarrow> searchForFood rnd cfg ant1 sim
                                   | Returning \<Rightarrow> returnToNest rnd cfg ant1 sim);
                   currentSpeed = speed ant2;
                   currentSpeed1 = (if carryingFood ant2 > 0 then currentSpeed * carrierSpeed cfg
                                    else currentSpeed);
                   currentSpeed2 = currentSpeed1 * speedMultiplier cfg;
                   ant3 = ant2\<lparr>position :=
                             \<lparr>px = px (position ant2) + cos (direction ant2) * currentSpeed2,
                              py = py (position ant2) + sin (direction ant2) * currentSpeed2\<rparr>\<rparr>;
                   ant4 = boundPosition (width sim2) (height sim2) ant3;
                   (ant5, sim3) = depositPheromones cfg ant4 sim2;
                   ant6 = (if trailHistory cfg then updateTrail ant5 else ant5\<lparr>trail := []\<rparr>)
               in (ant6, sim3))))"

text \<open>
  The constructor of \<open>Ant\<close>: three calls of \<open>Math.random()\<close>, for the angle and the
  distance of the start position and for the heading.
\<close>

definition new_Ant :: "(nat \<Rightarrow> real) \<Rightarrow> config \<Rightarrow> point \<Rightarrow> nat \<Rightarrow> Simulation \<Rightarrow> Ant \<times> Simulation" where
  "new_Ant rnd cfg nestPos new_id sim =
     (let (r1, sim1) = Math_random rnd sim;
          angle = r1 * pi * 2;
          (r2, sim2) = Math_random rnd sim1;
          dist = r2 * nestSize cfg * 0.8;
          (r3, sim3) = Math_random rnd sim2
      in (\<lparr>position = \<lparr>px = px nestPos + cos angle * dist, py = py nestPos + sin angle * dist\<rparr>,
           gridIndex = None, ident = new_id, nestPosition = nestPos,
           direction = r3 * pi * 2, speed = antSpeed cfg, turnSpeed = antTurnSpeed cfg,
           carryingFood = 0, state = Searching, energy = energyCapacity cfg, isAlive = True,
           trail = [], trailMaxLength = trailHistoryLength cfg, lastDepositionTime = 0,
           depositionInterval = 2, explorationRate = antExplorationRate cfg\<rparr>, sim3))"

definition addAnt :: "(nat \<Rightarrow> real) \<Rightarrow> config \<Rightarrow> Simulation \<Rightarrow> Simulation" where
  "addAnt rnd cfg sim =
     (let colony = antColony sim;
          (ant, sim1) = new_Ant rnd cfg (colony_nestPosition colony) (antIdCounter colony) sim
      in sim1\<lparr>antColony := colony\<lparr>antIdCounter := antIdCounter colony + 1,
                                    ants := ants colony @ [ant]\<rparr>\<rparr>)"

text \<open>The loop \<open>for (const ant of this.ants) ant.update(simulation)\<close>.\<close>

fun update_ants :: "(nat \<Rightarrow> real) \<Rightarrow> config \<Rightarrow> Ant list \<Rightarrow> Simulation \<Rightarrow> Ant list \<times> Simulation" where
  "update_ants rnd cfg [] sim = ([], sim)"
| "update_ants rnd cfg (ant # rest) sim =
     (let (ant', sim1) = Ant_update rnd cfg ant sim;
          (rest', sim2) = update_ants rnd cfg rest sim1
      in (ant' # rest', sim2))"

text \<open>\<open>AntColony.update(simulation)\<close>.\<close>

definition AntColony_update :: "(nat \<Rightarrow> real) \<Rightarrow> config \<Rightarrow> Simulation \<Rightarrow> Simulation" where
  "AntColony_update rnd cfg sim =
     (if paused cfg then sim
      else
        (let (ants1, sim1) = update_ants rnd cfg (ants (antColony sim)) sim;
             sim2 = sim1\<lparr>antColony := (antColony sim1)\<lparr>ants := filter isAlive ants1\<rparr>\<rparr>
         in if length (ants (antColony sim2)) < antMaxCount cfg
            then (let spawnChance = spawnRate cfg * speedMultiplier cfg / 60;
                      (r, sim3) = Math_random rnd sim2
                  in if r < spawnChance then addAnt rnd cfg sim3 else sim3)
            else sim2))"

section \<open>The simulation step (Simulation.update)\<close>

definition Simulation_update :: "(nat \<Rightarrow> real) \<Rightarrow> config \<Rightarrow> Simulation \<Rightarrow> Simulation" where
  "Simulation_update rnd cfg sim =
     (if \<not> initialized sim then sim
      else if paused cfg then sim
      else
        (let sim1 = sim\<lparr>foodManager := FoodManager_update cfg (foodManager sim)\<rparr>;
             sim2 = sim1\<lparr>pheromoneSystem := PheromoneSystem_update cfg (pheromoneSystem sim1)\<rparr>;
             sim3 = AntColony_update rnd cfg sim2
         in sim3\<lparr>time := time sim3 + timeStep cfg * speedMultiplier cfg\<rparr>))"

text \<open>
  The step in the order the specification asks for, to compare with \<open>Simulation_update\<close>:
  the field pass after the update of the colony.
\<close>

definition step_with_field_pass_last :: "(nat \<Rightarrow> real) \<Rightarrow> config \<Rightarrow> Simulation \<Rightarrow> Simulation" where
  "step_with_field_pass_last rnd cfg sim =
     (if \<not> initialized sim then sim
      else if paused cfg then sim
      else
        (let sim1 = sim\<lparr>foodManager := FoodManager_update cfg (foodManager sim)\<rparr>;
             sim2 = AntColony_update rnd cfg sim1;
             sim3 = sim2\<lparr>pheromoneSystem := PheromoneSystem_update cfg (pheromoneSystem sim2)\<rparr>
         in sim3\<lparr>time := time sim3 + timeStep cfg * speedMultiplier cfg\<rparr>))"

text \<open>A list of deposits, applied in order.\<close>

definition deposits :: "config \<Rightarrow> (channel \<times> point \<times> real) list \<Rightarrow> PheromoneSystem \<Rightarrow> PheromoneSystem" where
  "deposits cfg ds ps = fold (\<lambda>(ch, p, a). deposit cfg ch p a) ds ps"

section \<open>Concrete configurations and states\<close>

text \<open>The values of \<open>CONFIG\<close> as the repository ships them.\<close>

definition cfg0 :: config where
  "cfg0 = \<lparr>paused = False, speedMultiplier = 1, timeStep = 1/60, antMaxCount = 500,
     antSize = 3, antSpeed = 2, antTurnSpeed = 0.15, sensorAngle = pi/4, sensorDistance = 15,
     antExplorationRate = 0.1, spawnRate = 0.5, energyCapacity = 100, energyConsumption = 0.05,
     carrierSpeed = 0.7, returnHomeBias = 0.5, toFoodStrength = 100,
     toFoodEvaporationRate = 0.995, toFoodDiffusionRate = 0.1, toNestStrength = 100,
     toNestEvaporationRate = 0.995, toNestDiffusionRate = 0.1, maxIntensity = 500,
     foodSize = 4, respawnEnabled = True, respawnRate = 0.05, nestSize = 30,
     showPheromones = True, pheromoneFadeThreshold = 5, trailHistory = False,
     trailHistoryLength = 100\<rparr>"

text \<open>A field of two columns and one row, ten by five units at resolution 5.\<close>

definition field2 :: PheromoneSystem where
  "field2 = \<lparr>resolution = 5, cols = 2, rows = 1, toFoodGrid = [10, 490], toNestGrid = [0, 7],
     neighbors = [[1], [0]], dirtyRegions = {}, hasCanvas = False,
     visualizationNeedsUpdate = False\<rparr>"

text \<open>
  Six cells (three columns, two rows) of the to-food channel at the maximal intensity,
  and two adjacent cells at 10 with an evaporation rate of 1.
\<close>

definition field6 :: PheromoneSystem where
  "field6 = \<lparr>resolution = 5, cols = 3, rows = 2,
     toFoodGrid = [500, 500, 500, 500, 500, 500], toNestGrid = [0, 0, 0, 0, 0, 0],
     neighbors = [[1, 3, 4], [0, 2, 3, 4, 5], [1, 4, 5], [0, 1, 4], [0, 1, 2, 3, 5], [1, 2, 4]],
     dirtyRegions = {}, hasCanvas = False, visualizationNeedsUpdate = False\<rparr>"

definition field10 :: PheromoneSystem where
  "field10 = \<lparr>resolution = 5, cols = 2, rows = 1, toFoodGrid = [10, 10], toNestGrid = [0, 0],
     neighbors = [[1], [0]], dirtyRegions = {}, hasCanvas = False,
     visualizationNeedsUpdate = False\<rparr>"

definition cfg_no_evaporation :: config where
  "cfg_no_evaporation = cfg0\<lparr>toFoodEvaporationRate := 1, toNestEvaporationRate := 1\<rparr>"

text \<open>A cell at 0.99 times the fade threshold of 5, beside an empty cell.\<close>

definition field_faint :: PheromoneSystem where
  "field_faint = \<lparr>resolution = 5, cols = 2, rows = 1, toFoodGrid = [4.95, 0],
     toNestGrid = [0, 0], neighbors = [[1], [0]], dirtyRegions = {}, hasCanvas = False,
     visualizationNeedsUpdate = False\<rparr>"

text \<open>A cell just above the threshold that evaporates below it: \<open>5.01 * 0.995 < 5\<close>.\<close>

definition field_fading :: PheromoneSystem where
  "field_fading = \<lparr>resolution = 5, cols = 2, rows = 1, toFoodGrid = [5.01, 0],
     toNestGrid = [0, 0], neighbors = [[1], [0]], dirtyRegions = {}, hasCanvas = False,
     visualizationNeedsUpdate = False\<rparr>"

text \<open>A grid of two columns and two rows of size 20 with three entities.\<close>

definition ent_a :: entity where
  "ent_a = \<lparr>position = \<lparr>px = 5, py = 5\<rparr>, gridIndex = Some 0\<rparr>"

definition ent_b :: entity where
  "ent_b = \<lparr>position = \<lparr>px = 25, py = 5\<rparr>, gridIndex = Some 1\<rparr>"

definition ent_c :: entity where
  "ent_c = \<lparr>position = \<lparr>px = 30, py = 35\<rparr>, gridIndex = Some 3\<rparr>"

definition sgrid4 :: SpatialGrid where
  "sgrid4 = \<lparr>cellSize = 20, sg_cols = 2, sg_rows = 2, sg_grid = [[ent_a], [ent_b], [], [ent_c]]\<rparr>"

text \<open>
  An arena of 100 by 50 units with the nest in the middle, no food and no obstacle, an
  empty pheromone field of two cells of 50 units, and a colony of the given ants.
\<close>

definition field_empty :: PheromoneSystem where
  "field_empty = \<lparr>resolution = 50, cols = 2, rows = 1, toFoodGrid = [0, 0], toNestGrid = [0, 0],
     neighbors = [[1], [0]], dirtyRegions = {}, hasCanvas = False,
     visualizationNeedsUpdate = False\<rparr>"

definition arena :: "Ant list \<Rightarrow> Food list \<Rightarrow> Simulation" where
  "arena as foods = \<lparr>width = 100, height = 50, time = 0,
     nest = \<lparr>position = \<lparr>px = 50, py = 25\<rparr>, nest_size = 30, foodStored = 0\<rparr>,
     antColony = \<lparr>colony_nestPosition = \<lparr>px = 50, py = 25\<rparr>, ants = as, antIdCounter = 1\<rparr>,
     foodManager = foods, obstacleManager = [], pheromoneSystem = field_empty,
     initialized = True, randomCalls = 0\<rparr>"

text \<open>
  A searching ant at \<open>(20, 20)\<close> heading along the x axis, one tick before its next
  deposit; the same ant with just the energy of one tick left; and a sequence of random
  numbers that is constantly one half.
\<close>

definition ant0 :: Ant where
  "ant0 = \<lparr>position = \<lparr>px = 20, py = 20\<rparr>, gridIndex = None, ident = 0,
     nestPosition = \<lparr>px = 50, py = 25\<rparr>, direction = 0, speed = 2, turnSpeed = 0.15,
     carryingFood = 0, state = Searching, energy = 100, isAlive = True, trail = [],
     trailMaxLength = 100, lastDepositionTime = 1, depositionInterval = 2,
     explorationRate = 0.1\<rparr>"

definition ant_tired :: Ant where
  "ant_tired = ant0\<lparr>energy := 0.05\<rparr>"

definition rnd_half :: "nat \<Rightarrow> real" where
  "rnd_half k = 0.5"

text \<open>A food source of 100 units at \<open>(20, 20)\<close>, and one with half a unit left.\<close>

definition food100 :: Food where
  "food100 = \<lparr>position = \<lparr>px = 20, py = 20\<rparr>, gridIndex = None, quantity = 100,
     initialQuantity = 100, food_size = 4, depleted = False, displayRadius = 10\<rparr>"

definition food_half :: Food where
  "food_half = food100\<lparr>quantity := 0.5\<rparr>"

text \<open>The shipped configuration with the side sensors folded onto the forward sensor.\<close>

definition cfg_narrow :: config where
  "cfg_narrow = cfg0\<lparr>sensorAngle := 0\<rparr>"

text \<open>
  A field of three by three cells of 15 units with a trail of strength 50 to the left of
  the ant at \<open>(20, 20)\<close>, 20 ahead of it and 10 to its right, on both channels; sensors
  at right angles; a nest 100 units away; and the ant on its way home.
\<close>

definition field9 :: PheromoneSystem where
  "field9 = \<lparr>resolution = 15, cols = 3, rows = 3,
     toFoodGrid = [0, 50, 0, 0, 0, 20, 0, 10, 0], toNestGrid = [0, 50, 0, 0, 0, 20, 0, 10, 0],
     neighbors = build_neighbors 3 3, dirtyRegions = {}, hasCanvas = False,
     visualizationNeedsUpdate = False\<rparr>"

definition cfg_side :: config where
  "cfg_side = cfg0\<lparr>sensorAngle := pi / 2\<rparr>"

definition trail_arena :: Simulation where
  "trail_arena = (arena [] [])\<lparr>pheromoneSystem := field9,
     nest := \<lparr>position = \<lparr>px = 120, py = 20\<rparr>, nest_size = 30, foodStored = 0\<rparr>\<rparr>"

definition ant_home :: Ant where
  "ant_home = ant0\<lparr>state := Returning, carryingFood := 1, nestPosition := \<lparr>px = 120, py = 20\<rparr>\<rparr>"

text \<open>
  The arena after the window has been made lower: the nest stays where it was built, at
  \<open>(50, 100)\<close>, below the lower edge. An ant at \<open>(50, 39)\<close> with this nest, and a food
  source where it stands.
\<close>

definition arena_shrunk :: "Ant list \<Rightarrow> Food list \<Rightarrow> Simulation" where
  "arena_shrunk as foods = (arena as foods)\<lparr>
     nest := \<lparr>position = \<lparr>px = 50, py = 100\<rparr>, nest_size = 30, foodStored = 0\<rparr>,
     antColony := \<lparr>colony_nestPosition = \<lparr>px = 50, py = 100\<rparr>, ants = as, antIdCounter = 1\<rparr>\<rparr>"

definition ant_edge :: Ant where
  "ant_edge = ant0\<lparr>position := \<lparr>px = 50, py = 39\<rparr>, nestPosition := \<lparr>px = 50, py = 100\<rparr>\<rparr>"

definition food_edge :: Food where
  "food_edge = food100\<lparr>position := \<lparr>px = 50, py = 39\<rparr>\<rparr>"

section \<open>Facts about cell indices\<close>

lemma posToIndex_cases:
  "posToIndex ps p = -1 \<or>
   (0 \<le> \<lfloor>px p / resolution ps\<rfloor> \<and> \<lfloor>px p / resolution ps\<rfloor> < cols ps \<and>
    0 \<le> \<lfloor>py p / resolution ps\<rfloor> \<and> \<lfloor>py p / resolution ps\<rfloor> < rows ps \<and>
    posToIndex ps p = \<lfloor>py p / resolution ps\<rfloor> * cols ps + \<lfloor>px p / resolution ps\<rfloor>)"
  by (auto simp: posToIndex_def Let_def)

lemma cell_index_bound:
  fixes c r cs rs :: int
  assumes "0 \<le> c" "c < cs" "0 \<le> r" "r < rs"
  shows "0 \<le> r * cs + c \<and> r * cs + c < cs * rs"
proof -
  have "r * cs + c < r * cs + cs" using assms by simp
  also have "\<dots> = (r + 1) * cs" by (simp add: algebra_simps)
  also have "\<dots> \<le> rs * cs" using assms by (intro mult_right_mono) auto
  finally have "r * cs + c < cs * rs" by (simp add: mult.commute)
  moreover have "0 \<le> r * cs + c" using assms by simp
  ultimately show ?thesis by simp
qed

lemma posToIndex_in_grid:
  assumes "posToIndex ps p \<noteq> -1"
  shows "0 \<le> posToIndex ps p \<and> posToIndex ps p < cols ps * rows ps"
proof -
  let ?c = "\<lfloor>px p / resolution ps\<rfloor>" and ?r = "\<lfloor>py p / resolution ps\<rfloor>"
  from posToIndex_cases [of ps p] assms
  have b: "0 \<le> ?c" "?c < cols ps" "0 \<le> ?r" "?r < rows ps"
    and e: "posToIndex ps p = ?r * cols ps + ?c" by auto
  from cell_index_bound [OF b] e show ?thesis by simp
qed

lemma posToIndex_lt_length:
  assumes "ps_wf ps" "posToIndex ps p \<noteq> -1"
  shows "nat (posToIndex ps p) < length (grid_of ch ps)"
  using posToIndex_in_grid [OF assms(2)] assms(1)
  by (cases ch) (auto simp: ps_wf_def)

lemma build_neighbors_2_1: "build_neighbors 2 1 = [[1], [0]]"
  by (simp add: build_neighbors_def getNeighborIndices_def upto.simps)

lemma field2_wf: "ps_wf field2"
  by (simp add: ps_wf_def field2_def build_neighbors_2_1)

section \<open>Deposition\<close>

text \<open>
  Claim C5. A deposit at a position inside the grid sets the cell of that position to
  \<open>min (current + amount) maxIntensity\<close> and changes no other cell of either channel;
  a deposit at a position outside the grid returns the field as it was, and there is no
  error branch.
\<close>

theorem deposit_clamps_or_drops:
  assumes "ps_wf ps"
  shows "(posToIndex ps p \<noteq> -1 \<longrightarrow>
            nat (posToIndex ps p) < length (grid_of ch ps) \<and>
            length (grid_of ch (deposit cfg ch p a ps)) = length (grid_of ch ps) \<and>
            grid_of ch (deposit cfg ch p a ps) ! nat (posToIndex ps p) =
              min (grid_of ch ps ! nat (posToIndex ps p) + a) (maxIntensity cfg) \<and>
            (\<forall>j. j \<noteq> nat (posToIndex ps p) \<longrightarrow>
                 grid_of ch (deposit cfg ch p a ps) ! j = grid_of ch ps ! j) \<and>
            grid_of (other_channel ch) (deposit cfg ch p a ps) = grid_of (other_channel ch) ps)
       \<and> (posToIndex ps p = -1 \<longrightarrow> deposit cfg ch p a ps = ps)"
proof (intro conjI impI)
  assume ib: "posToIndex ps p \<noteq> -1"
  show lt: "nat (posToIndex ps p) < length (grid_of ch ps)"
    by (rule posToIndex_lt_length [OF assms ib])
  show "length (grid_of ch (deposit cfg ch p a ps)) = length (grid_of ch ps)"
    using ib by (cases ch) (simp_all add: deposit_def Let_def)
  show "grid_of ch (deposit cfg ch p a ps) ! nat (posToIndex ps p) =
          min (grid_of ch ps ! nat (posToIndex ps p) + a) (maxIntensity cfg)"
    using ib lt by (cases ch) (simp_all add: deposit_def Let_def)
  show "\<forall>j. j \<noteq> nat (posToIndex ps p) \<longrightarrow>
          grid_of ch (deposit cfg ch p a ps) ! j = grid_of ch ps ! j"
    using ib by (cases ch) (simp_all add: deposit_def Let_def)
  show "grid_of (other_channel ch) (deposit cfg ch p a ps) = grid_of (other_channel ch) ps"
    using ib by (cases ch) (simp_all add: deposit_def Let_def)
next
  assume "posToIndex ps p = -1"
  then show "deposit cfg ch p a ps = ps" by (simp add: deposit_def)
qed

theorem deposit_clamps_or_drops_witness:
  "ps_wf field2 \<and> posToIndex field2 \<lparr>px = 7, py = 2\<rparr> \<noteq> -1 \<and>
   grid_of ToFood (deposit cfg0 ToFood \<lparr>px = 7, py = 2\<rparr> 30 field2) ! 1 = 500 \<and>
   grid_of ToFood (deposit cfg0 ToFood \<lparr>px = 7, py = 2\<rparr> 30 field2) ! 0 = 10 \<and>
   grid_of ToNest (deposit cfg0 ToFood \<lparr>px = 7, py = 2\<rparr> 30 field2) = [0, 7] \<and>
   posToIndex field2 \<lparr>px = -3, py = 2\<rparr> = -1 \<and>
   deposit cfg0 ToFood \<lparr>px = -3, py = 2\<rparr> 30 field2 = field2"
  using deposit_clamps_or_drops [OF field2_wf, of "\<lparr>px = 7, py = 2\<rparr>" ToFood cfg0 30]
        deposit_clamps_or_drops [OF field2_wf, of "\<lparr>px = -3, py = 2\<rparr>" ToFood cfg0 30]
        field2_wf
  by (simp add: posToIndex_def field2_def cfg0_def)

section \<open>Sensing\<close>

text \<open>
  Claim C10. \<open>getPheromoneAt\<close> and \<open>sensePheromone\<close> leave the whole PheromoneSystem
  as it was. \<open>getPheromoneAt\<close> returns the value of the cell of the position, and 0 for a
  position outside the grid; \<open>sensePheromone\<close> returns these values at the three sensor
  points: forward at the heading, left at heading minus sensor angle, right at heading
  plus sensor angle, each at the sensor distance.
\<close>

theorem sensing_is_pure_read:
  "snd (getPheromoneAt grid p ps) = ps \<and>
   fst (getPheromoneAt grid p ps) =
     (if posToIndex ps p = -1 then 0 else grid ! nat (posToIndex ps p)) \<and>
   snd (sensePheromone grid p angle sa sd ps) = ps \<and>
   fst (sensePheromone grid p angle sa sd ps) =
     \<lparr>forward = fst (getPheromoneAt grid
                  \<lparr>px = px p + cos angle * sd, py = py p + sin angle * sd\<rparr> ps),
      left = fst (getPheromoneAt grid
                  \<lparr>px = px p + cos (angle - sa) * sd, py = py p + sin (angle - sa) * sd\<rparr> ps),
      right = fst (getPheromoneAt grid
                  \<lparr>px = px p + cos (angle + sa) * sd, py = py p + sin (angle + sa) * sd\<rparr> ps)\<rparr>"
  by (simp add: getPheromoneAt_def sensePheromone_def Let_def split: prod.splits)

theorem sensing_is_pure_read_witness:
  "snd (sensePheromone (toFoodGrid field2) \<lparr>px = 2, py = 2\<rparr> 0 0 5 field2) = field2 \<and>
   fst (sensePheromone (toFoodGrid field2) \<lparr>px = 2, py = 2\<rparr> 0 0 5 field2) =
     \<lparr>forward = 490, left = 490, right = 490\<rparr> \<and>
   fst (getPheromoneAt (toFoodGrid field2) \<lparr>px = 17, py = 2\<rparr> field2) = 0 \<and>
   snd (getPheromoneAt (toFoodGrid field2) \<lparr>px = 17, py = 2\<rparr> field2) = field2"
  using sensing_is_pure_read [of "toFoodGrid field2" "\<lparr>px = 2, py = 2\<rparr>" field2 0 0 5]
        sensing_is_pure_read [of "toFoodGrid field2" "\<lparr>px = 17, py = 2\<rparr>" field2 0 0 5]
  by (simp add: getPheromoneAt_def posToIndex_def field2_def)

section \<open>The pass, one channel at a time\<close>

lemma fold_diffuse_neighbor_food:
  "fst (fold (diffuse_neighbor cfg i fv nv n) ns (f, g, d)) =
     (if fv > pheromoneFadeThreshold cfg
      then fold (diffuse_to i (fv * toFoodDiffusionRate cfg / real n)) ns f else f)"
  by (induction ns arbitrary: f g d) (simp_all add: diffuse_neighbor_def Let_def)

lemma fold_diffuse_neighbor_nest:
  "fst (snd (fold (diffuse_neighbor cfg i fv nv n) ns (f, g, d))) =
     (if nv > pheromoneFadeThreshold cfg
      then fold (diffuse_to i (nv * toNestDiffusionRate cfg / real n)) ns g else g)"
  by (induction ns arbitrary: f g d) (simp_all add: diffuse_neighbor_def Let_def)

lemma update_cell_food:
  "fst (update_cell cfg ps i (f, g, d)) =
     channel_cell (pheromoneFadeThreshold cfg) (toFoodEvaporationRate cfg)
       (toFoodDiffusionRate cfg) (toFoodGrid ps) (neighbors ps) i f"
  by (simp add: update_cell_def channel_cell_def Let_def fold_diffuse_neighbor_food)

lemma update_cell_nest:
  "fst (snd (update_cell cfg ps i (f, g, d))) =
     channel_cell (pheromoneFadeThreshold cfg) (toNestEvaporationRate cfg)
       (toNestDiffusionRate cfg) (toNestGrid ps) (neighbors ps) i g"
  by (simp add: update_cell_def channel_cell_def Let_def fold_diffuse_neighbor_nest)

lemma fold_update_cell_food:
  "fst (fold (update_cell cfg ps) is st) =
     fold (channel_cell (pheromoneFadeThreshold cfg) (toFoodEvaporationRate cfg)
       (toFoodDiffusionRate cfg) (toFoodGrid ps) (neighbors ps)) is (fst st)"
proof (induction "is" arbitrary: st)
  case Nil
  show ?case by simp
next
  case (Cons i "is")
  obtain f g d where st: "st = (f, g, d)" by (cases st)
  show ?case using Cons.IH [of "update_cell cfg ps i st"] update_cell_food [of cfg ps i f g d]
    by (simp add: st)
qed

lemma fold_update_cell_nest:
  "fst (snd (fold (update_cell cfg ps) is st)) =
     fold (channel_cell (pheromoneFadeThreshold cfg) (toNestEvaporationRate cfg)
       (toNestDiffusionRate cfg) (toNestGrid ps) (neighbors ps)) is (fst (snd st))"
proof (induction "is" arbitrary: st)
  case Nil
  show ?case by simp
next
  case (Cons i "is")
  obtain f g d where st: "st = (f, g, d)" by (cases st)
  show ?case using Cons.IH [of "update_cell cfg ps i st"] update_cell_nest [of cfg ps i f g d]
    by (simp add: st)
qed

lemma update_grid_of:
  "grid_of ch (PheromoneSystem_update cfg ps) =
     (if paused cfg then grid_of ch ps else channel_pass cfg ch ps)"
proof (cases "paused cfg")
  case True
  then show ?thesis by (simp add: PheromoneSystem_update_def)
next
  case False
  let ?r = "fold (update_cell cfg ps) [0..<length (toFoodGrid ps)]
              (toFoodGrid ps, toNestGrid ps, dirtyRegions ps)"
  obtain f g d where r: "?r = (f, g, d)" by (cases ?r)
  have f: "f = channel_pass cfg ToFood ps"
    using fold_update_cell_food [of cfg ps "[0..<length (toFoodGrid ps)]"
            "(toFoodGrid ps, toNestGrid ps, dirtyRegions ps)"] r
    by (simp add: channel_pass_def)
  have g: "g = channel_pass cfg ToNest ps"
    using fold_update_cell_nest [of cfg ps "[0..<length (toFoodGrid ps)]"
            "(toFoodGrid ps, toNestGrid ps, dirtyRegions ps)"] r
    by (simp add: channel_pass_def)
  show ?thesis using False r f g
    by (cases ch)
       (simp_all add: PheromoneSystem_update_def Let_def updateVisualizations_def
          updateAllVisualizations_def)
qed

section \<open>Lengths and cells out of reach\<close>

lemma length_diffuse_to [simp]: "length (diffuse_to i d n a) = length a"
  by (simp add: diffuse_to_def Let_def)

lemma length_fold_diffuse_to [simp]: "length (fold (diffuse_to i d) ns a) = length a"
  by (induction ns arbitrary: a) simp_all

lemma length_channel_cell [simp]: "length (channel_cell t e d g nb i nxt) = length nxt"
  by (simp add: channel_cell_def Let_def)

lemma length_fold_channel_cell [simp]:
  "length (fold (channel_cell t e d g nb) is nxt) = length nxt"
  by (induction "is" arbitrary: nxt) simp_all

lemma length_channel_pass [simp]: "length (channel_pass cfg ch ps) = length (grid_of ch ps)"
  by (simp add: channel_pass_def)

lemma diffuse_to_other:
  assumes "m \<noteq> i" "m \<noteq> n"
  shows "diffuse_to i d n a ! m = a ! m"
  using assms by (simp add: diffuse_to_def Let_def)

lemma fold_diffuse_to_other:
  assumes "m \<noteq> i" "m \<notin> set ns"
  shows "fold (diffuse_to i d) ns a ! m = a ! m"
  using assms by (induction ns arbitrary: a) (simp_all add: diffuse_to_other)

section \<open>A cell that receives nothing\<close>

lemma channel_cell_frame:
  assumes "j \<noteq> i" and "evaporated t e (g ! j) > t \<longrightarrow> i \<notin> set (nb ! j)"
  shows "channel_cell t e d g nb j nxt ! i = nxt ! i"
  using assms by (simp add: channel_cell_def Let_def fold_diffuse_to_other)

lemma channel_cell_self:
  assumes "\<not> evaporated t e (g ! i) > t" and "i < length nxt" and "nxt ! i = g ! i"
  shows "channel_cell t e d g nb i nxt ! i = evaporated t e (g ! i)"
  using assms by (simp add: channel_cell_def Let_def evaporated_def)

lemma fold_channel_cell_quiet:
  assumes quiet: "\<forall>j<n. j \<noteq> i \<longrightarrow> evaporated t e (g ! j) > t \<longrightarrow> i \<notin> set (nb ! j)"
    and self: "\<not> evaporated t e (g ! i) > t" and i: "i < length g" and k: "k \<le> n"
  shows "fold (channel_cell t e d g nb) [0..<k] g ! i =
           (if i < k then evaporated t e (g ! i) else g ! i)"
  using k
proof (induction k)
  case 0
  show ?case by simp
next
  case (Suc k)
  let ?nxt = "fold (channel_cell t e d g nb) [0..<k] g"
  have ih: "?nxt ! i = (if i < k then evaporated t e (g ! i) else g ! i)"
    using Suc by simp
  have step: "fold (channel_cell t e d g nb) [0..<Suc k] g = channel_cell t e d g nb k ?nxt"
    by simp
  show ?case
  proof (cases "k = i")
    case True
    have "channel_cell t e d g nb i ?nxt ! i = evaporated t e (g ! i)"
      using self i ih True by (intro channel_cell_self) simp_all
    then show ?thesis using True by (simp only: step) simp
  next
    case False
    have "k < n" using Suc.prems by simp
    with quiet False have "evaporated t e (g ! k) > t \<longrightarrow> i \<notin> set (nb ! k)" by blast
    then have "channel_cell t e d g nb k ?nxt ! i = ?nxt ! i"
      using False by (intro channel_cell_frame) simp_all
    then show ?thesis using ih False by (simp only: step) auto
  qed
qed

lemma channel_pass_quiet:
  assumes len: "length (toFoodGrid ps) = length (grid_of ch ps)"
    and i: "i < length (grid_of ch ps)"
    and self: "\<not> evaporated (pheromoneFadeThreshold cfg) (evaporationRate cfg ch)
                   (grid_of ch ps ! i) > pheromoneFadeThreshold cfg"
    and quiet: "\<forall>j<length (grid_of ch ps). j \<noteq> i \<longrightarrow> i \<in> set (neighbors ps ! j) \<longrightarrow>
                 \<not> evaporated (pheromoneFadeThreshold cfg) (evaporationRate cfg ch)
                      (grid_of ch ps ! j) > pheromoneFadeThreshold cfg"
  shows "channel_pass cfg ch ps ! i =
           evaporated (pheromoneFadeThreshold cfg) (evaporationRate cfg ch) (grid_of ch ps ! i)"
proof -
  have q: "\<forall>j<length (grid_of ch ps). j \<noteq> i \<longrightarrow>
             evaporated (pheromoneFadeThreshold cfg) (evaporationRate cfg ch)
               (grid_of ch ps ! j) > pheromoneFadeThreshold cfg \<longrightarrow> i \<notin> set (neighbors ps ! j)"
    using quiet by blast
  show ?thesis
    using fold_channel_cell_quiet [OF q self i order_refl, of "diffusionRate cfg ch"] i len
    by (simp add: channel_pass_def)
qed

section \<open>Writers that keep the cells in range\<close>

lemma list_update_all:
  assumes "\<forall>v\<in>set xs. P v" and "P x"
  shows "\<forall>v\<in>set (xs[k := x]). P v"
  using assms set_update_subset_insert [of xs k x] by auto

lemma copy_cells_all:
  assumes new: "\<forall>v\<in>set new. P v"
    and old: "\<forall>row col. 0 \<le> row \<and> row < nrows \<and> 0 \<le> col \<and> col < ncols \<longrightarrow>
                P (old ! nat (row * oldCols + col))"
  shows "\<forall>v\<in>set (copy_cells oldCols newCols nrows ncols old new). P v"
  unfolding copy_cells_def
proof (rule fold_invariant [where Q = "\<lambda>row. 0 \<le> row \<and> row < nrows"])
  show "\<And>row. row \<in> set [0..nrows - 1] \<Longrightarrow> 0 \<le> row \<and> row < nrows" by simp
  show "\<forall>v\<in>set new. P v" by (rule new)
next
  fix row acc
  assume row: "0 \<le> row \<and> row < nrows" and acc: "\<forall>v\<in>set acc. P v"
  show "\<forall>v\<in>set (fold (\<lambda>col acc'. acc'[nat (row * newCols + col) :=
                 old ! nat (row * oldCols + col)]) [0..ncols - 1] acc). P v"
  proof (rule fold_invariant [where Q = "\<lambda>col. 0 \<le> col \<and> col < ncols"])
    show "\<And>col. col \<in> set [0..ncols - 1] \<Longrightarrow> 0 \<le> col \<and> col < ncols" by simp
    show "\<forall>v\<in>set acc. P v" by (rule acc)
  next
    fix col acc'
    assume col: "0 \<le> col \<and> col < ncols" and acc': "\<forall>v\<in>set acc'. P v"
    have "P (old ! nat (row * oldCols + col))" using old row col by blast
    with acc' show "\<forall>v\<in>set (acc'[nat (row * newCols + col) :=
                       old ! nat (row * oldCols + col)]). P v"
      by (rule list_update_all)
  qed
qed

lemma old_cell_in_grid:
  assumes "length g = nat (cs * rs)" and "0 \<le> row" "row < min rs nr" "0 \<le> col" "col < min cs nc"
  shows "g ! nat (row * cs + col) \<in> set g"
proof -
  have "0 \<le> row * cs + col \<and> row * cs + col < cs * rs"
    using assms by (intro cell_index_bound) simp_all
  then have "nat (row * cs + col) < length g" using assms(1) by simp
  then show ?thesis by (rule nth_mem)
qed

lemma resize_grids:
  assumes "resize w h ps = Some ps'"
  shows "toFoodGrid ps' = copy_cells (cols ps) \<lceil>w / resolution ps\<rceil>
            (min (rows ps) \<lceil>h / resolution ps\<rceil>) (min (cols ps) \<lceil>w / resolution ps\<rceil>)
            (toFoodGrid ps) (replicate (nat (\<lceil>w / resolution ps\<rceil> * \<lceil>h / resolution ps\<rceil>)) 0)
       \<and> toNestGrid ps' = copy_cells (cols ps) \<lceil>w / resolution ps\<rceil>
            (min (rows ps) \<lceil>h / resolution ps\<rceil>) (min (cols ps) \<lceil>w / resolution ps\<rceil>)
            (toNestGrid ps) (replicate (nat (\<lceil>w / resolution ps\<rceil> * \<lceil>h / resolution ps\<rceil>)) 0)"
  using assms
  by (auto simp: resize_def Let_def updateAllVisualizations_def split: if_splits)

lemma resize_in_range:
  assumes wf: "ps_wf ps" and r: "in_range cfg ps" and m: "0 \<le> maxIntensity cfg"
    and res: "resize w h ps = Some ps'"
  shows "in_range cfg ps'"
proof -
  let ?P = "\<lambda>v. 0 \<le> v \<and> v \<le> maxIntensity cfg"
  let ?nc = "\<lceil>w / resolution ps\<rceil>" and ?nr = "\<lceil>h / resolution ps\<rceil>"
  have z: "\<forall>v\<in>set (replicate (nat (?nc * ?nr)) (0::real)). ?P v" using m by simp
  have f: "\<forall>v\<in>set (toFoodGrid ps). ?P v" and n: "\<forall>v\<in>set (toNestGrid ps). ?P v"
    using r by (simp_all add: in_range_def list_all_iff)
  have lf: "length (toFoodGrid ps) = nat (cols ps * rows ps)"
    and ln: "length (toNestGrid ps) = nat (cols ps * rows ps)"
    using wf by (simp_all add: ps_wf_def)
  have "\<forall>v\<in>set (copy_cells (cols ps) ?nc (min (rows ps) ?nr) (min (cols ps) ?nc)
                   (toFoodGrid ps) (replicate (nat (?nc * ?nr)) 0)). ?P v"
    using z f old_cell_in_grid [OF lf] by (intro copy_cells_all) blast+
  moreover have "\<forall>v\<in>set (copy_cells (cols ps) ?nc (min (rows ps) ?nr) (min (cols ps) ?nc)
                   (toNestGrid ps) (replicate (nat (?nc * ?nr)) 0)). ?P v"
    using z n old_cell_in_grid [OF ln] by (intro copy_cells_all) blast+
  ultimately show ?thesis using resize_grids [OF res]
    by (simp add: in_range_def list_all_iff)
qed

lemma clear_in_range:
  assumes "0 \<le> maxIntensity cfg"
  shows "in_range cfg (clear ps)"
  using assms by (simp add: in_range_def clear_def updateAllVisualizations_def list_all_iff)

lemma deposit_in_range:
  assumes wf: "ps_wf ps" and r: "in_range cfg ps" and a: "0 \<le> a" and m: "0 \<le> maxIntensity cfg"
  shows "in_range cfg (deposit cfg ch p a ps)"
proof (cases "posToIndex ps p = -1")
  case True
  then show ?thesis using r by (simp add: deposit_def)
next
  case False
  let ?P = "\<lambda>v. 0 \<le> v \<and> v \<le> maxIntensity cfg"
  let ?i = "nat (posToIndex ps p)"
  have g: "\<forall>v\<in>set (grid_of ch ps). ?P v"
    using r by (cases ch) (simp_all add: in_range_def list_all_iff)
  have "?i < length (grid_of ch ps)" by (rule posToIndex_lt_length [OF wf False])
  then have "?P (grid_of ch ps ! ?i)" using g by simp
  then have "?P (min (grid_of ch ps ! ?i + a) (maxIntensity cfg))" using a m by simp
  with g have "\<forall>v\<in>set ((grid_of ch ps)[?i := min (grid_of ch ps ! ?i + a) (maxIntensity cfg)]). ?P v"
    by (rule list_update_all)
  then show ?thesis using False r
    by (cases ch) (simp_all add: deposit_def Let_def in_range_def list_all_iff)
qed

section \<open>Range, conservation and the fade threshold\<close>

lemma resize_returns:
  assumes "0 \<le> w / resolution ps" "0 \<le> h / resolution ps"
    and "\<lceil>w / resolution ps\<rceil> * \<lceil>h / resolution ps\<rceil> \<le> 2 ^ 32 - 1"
  shows "resize w h ps \<noteq> None"
proof -
  have "0 \<le> \<lceil>w / resolution ps\<rceil>" "0 \<le> \<lceil>h / resolution ps\<rceil>" using assms by simp_all
  then have "0 \<le> \<lceil>w / resolution ps\<rceil> * \<lceil>h / resolution ps\<rceil>" by simp
  then show ?thesis using assms(3) by (simp add: resize_def Let_def)
qed

lemma resize_throws:
  assumes "\<lceil>w / resolution ps\<rceil> * \<lceil>h / resolution ps\<rceil> > 2 ^ 32 - 1"
  shows "resize w h ps = None"
  using assms by (simp add: resize_def Let_def)

text \<open>
  The other writers of the grids keep every cell in \<open>[0, maxIntensity]\<close>: \<open>deposit\<close> by
  its \<open>Math.min\<close>, \<open>clear\<close> and \<open>resize\<close> by writing zeros and copies of cells.
\<close>

lemma other_writers_keep_range:
  assumes "ps_wf ps" and "in_range cfg ps" and "0 \<le> a" and "0 \<le> maxIntensity cfg"
  shows "in_range cfg (deposit cfg ch p a ps) \<and>
         in_range cfg (clear ps) \<and>
         (\<forall>ps'. resize w h ps = Some ps' \<longrightarrow> in_range cfg ps')"
proof (intro conjI allI impI)
  show "in_range cfg (deposit cfg ch p a ps)" by (rule deposit_in_range [OF assms])
  show "in_range cfg (clear ps)" by (rule clear_in_range [OF assms(4)])
  show "in_range cfg ps'" if "resize w h ps = Some ps'" for ps'
    using that by (rule resize_in_range [OF assms(1,2,4)])
qed

lemma field6_wf: "ps_wf field6"
  by (simp add: ps_wf_def field6_def build_neighbors_def getNeighborIndices_def upto.simps)

lemma field10_wf: "ps_wf field10"
  by (simp add: ps_wf_def field10_def build_neighbors_2_1)

lemma field_faint_wf: "ps_wf field_faint"
  by (simp add: ps_wf_def field_faint_def build_neighbors_2_1)

lemma field_fading_wf: "ps_wf field_fading"
  by (simp add: ps_wf_def field_fading_def build_neighbors_2_1)

lemma field6_after_pass:
  "toFoodGrid (PheromoneSystem_update cfg0 field6) =
     [14527 / 30, 10149 / 20, 28457 / 60, 4577 / 10, 1393 / 3, 1791 / 4]"
  using update_grid_of [of ToFood cfg0 field6]
  by (simp add: channel_pass_def channel_cell_def diffuse_to_def evaporated_def Let_def
        field6_def cfg0_def)

lemma field2_resized:
  "resize 15 10 field2 = Some \<lparr>resolution = 5, cols = 3, rows = 2,
     toFoodGrid = [10, 490, 0, 0, 0, 0], toNestGrid = [0, 7, 0, 0, 0, 0],
     neighbors = [[1, 3, 4], [0, 2, 3, 4, 5], [1, 4, 5], [0, 1, 4], [0, 1, 2, 3, 5], [1, 2, 4]],
     dirtyRegions = {}, hasCanvas = False, visualizationNeedsUpdate = False\<rparr>"
  by (simp add: resize_def field2_def copy_cells_def Let_def build_neighbors_def
        getNeighborIndices_def upto.simps numeral_eq_Suc)

text \<open>
  Claim C2 on the code. The configuration calls \<open>maxIntensity\<close> the cap of the pheromone
  intensity and \<open>deposit\<close> clamps to it, but the evaporation and diffusion pass writes
  its sums unclamped: with the shipped configuration, six cells at the maximal intensity
  500 in a grid of three columns and two rows, all in range, give a field that is no
  longer in range (the cell in the middle of the first row holds 507.45).
\<close>

theorem update_exceeds_maxIntensity:
  "ps_wf field6 \<and> in_range cfg0 field6 \<and> \<not> in_range cfg0 (PheromoneSystem_update cfg0 field6)"
proof -
  have "in_range cfg0 field6" by (simp add: in_range_def field6_def cfg0_def)
  moreover have "\<not> list_all (\<lambda>v. 0 \<le> v \<and> v \<le> maxIntensity cfg0)
                       (toFoodGrid (PheromoneSystem_update cfg0 field6))"
    unfolding field6_after_pass by (simp add: cfg0_def)
  then have "\<not> in_range cfg0 (PheromoneSystem_update cfg0 field6)"
    by (simp add: in_range_def)
  ultimately show ?thesis using field6_wf by simp
qed

text \<open>
  Claim C3 on the code. With an evaporation rate of 1 and two adjacent cells at 10
  (threshold 5, diffusion rate 0.1), the pass returns 10 and 9: the sum of the channel
  falls from 20 to 19. The assignment \<open>toFoodNext[i] = toFoodValue\<close> of the evaporation
  step overwrites what the cells before \<open>i\<close> have already diffused into cell \<open>i\<close>.
\<close>

theorem diffusion_loses_inflow:
  "ps_wf field10 \<and> toFoodEvaporationRate cfg_no_evaporation = 1 \<and>
   sum_list (toFoodGrid field10) = 20 \<and>
   toFoodGrid (PheromoneSystem_update cfg_no_evaporation field10) = [10, 9] \<and>
   sum_list (toFoodGrid (PheromoneSystem_update cfg_no_evaporation field10)) = 19"
proof -
  have "toFoodGrid (PheromoneSystem_update cfg_no_evaporation field10) = [10, 9]"
    using update_grid_of [of ToFood cfg_no_evaporation field10]
    by (simp add: channel_pass_def channel_cell_def diffuse_to_def evaporated_def Let_def
          field10_def cfg_no_evaporation_def cfg0_def)
  moreover have "sum_list (toFoodGrid field10) = 20" by (simp add: field10_def)
  moreover have "toFoodEvaporationRate cfg_no_evaporation = 1"
    by (simp add: cfg_no_evaporation_def)
  ultimately show ?thesis using field10_wf by simp
qed

text \<open>
  Claim C4 as stated fails: a cell at 0.99 times the threshold, beside an empty cell and
  with an evaporation rate below 1, is not 0 after the pass.
\<close>

theorem faint_cell_not_snapped:
  "ps_wf field_faint \<and>
   toFoodGrid field_faint ! 0 = pheromoneFadeThreshold cfg0 * 0.99 \<and>
   toFoodEvaporationRate cfg0 < 1 \<and>
   toFoodGrid field_faint ! 1 = 0 \<and>
   toFoodGrid (PheromoneSystem_update cfg0 field_faint) ! 0 \<noteq> 0"
proof -
  have "toFoodGrid (PheromoneSystem_update cfg0 field_faint) = [4.95, 0]"
    using update_grid_of [of ToFood cfg0 field_faint]
    by (simp add: channel_pass_def channel_cell_def diffuse_to_def evaporated_def Let_def
          field_faint_def cfg0_def)
  moreover have "toFoodGrid field_faint ! 0 = pheromoneFadeThreshold cfg0 * 0.99"
    and "toFoodGrid field_faint ! 1 = 0" and "toFoodEvaporationRate cfg0 < 1"
    by (simp_all add: field_faint_def cfg0_def)
  ultimately show ?thesis using field_faint_wf by simp
qed

text \<open>
  Claim C4, as amended. For a cell that no neighbour diffuses into: a cell at or below
  the fade threshold (such as one at 0.99 times the threshold) keeps its value through
  the pass; a cell strictly above the threshold whose evaporated value falls strictly
  below the threshold is exactly 0 after the pass.
\<close>

theorem quiet_cell_after_pass:
  assumes wf: "ps_wf ps" and run: "\<not> paused cfg" and i: "i < length (grid_of ch ps)"
    and quiet: "\<forall>j<length (grid_of ch ps). j \<noteq> i \<longrightarrow> i \<in> set (neighbors ps ! j) \<longrightarrow>
                 \<not> evaporated (pheromoneFadeThreshold cfg) (evaporationRate cfg ch)
                      (grid_of ch ps ! j) > pheromoneFadeThreshold cfg"
  shows "(grid_of ch ps ! i \<le> pheromoneFadeThreshold cfg \<longrightarrow>
            grid_of ch (PheromoneSystem_update cfg ps) ! i = grid_of ch ps ! i) \<and>
         (grid_of ch ps ! i > pheromoneFadeThreshold cfg \<and>
          grid_of ch ps ! i * evaporationRate cfg ch < pheromoneFadeThreshold cfg \<and>
          0 \<le> pheromoneFadeThreshold cfg \<longrightarrow>
            grid_of ch (PheromoneSystem_update cfg ps) ! i = 0)"
proof -
  let ?t = "pheromoneFadeThreshold cfg" and ?e = "evaporationRate cfg ch"
  have len: "length (toFoodGrid ps) = length (grid_of ch ps)"
    using wf by (cases ch) (simp_all add: ps_wf_def)
  have pass: "grid_of ch (PheromoneSystem_update cfg ps) ! i = evaporated ?t ?e (grid_of ch ps ! i)"
    if "\<not> evaporated ?t ?e (grid_of ch ps ! i) > ?t"
    using channel_pass_quiet [OF len i that quiet] run by (simp add: update_grid_of)
  show ?thesis
  proof (intro conjI impI)
    assume low: "grid_of ch ps ! i \<le> ?t"
    then have "evaporated ?t ?e (grid_of ch ps ! i) = grid_of ch ps ! i"
      by (simp add: evaporated_def)
    with pass low show "grid_of ch (PheromoneSystem_update cfg ps) ! i = grid_of ch ps ! i"
      by simp
  next
    assume "grid_of ch ps ! i > ?t \<and> grid_of ch ps ! i * ?e < ?t \<and> 0 \<le> ?t"
    then have "evaporated ?t ?e (grid_of ch ps ! i) = 0" and "0 \<le> ?t"
      by (simp_all add: evaporated_def Let_def)
    with pass show "grid_of ch (PheromoneSystem_update cfg ps) ! i = 0" by simp
  qed
qed

text \<open>
  The amended claim C4 at the cell 4.95, which stays, and at the cell 5.01, which is
  snapped to 0.
\<close>

theorem quiet_cell_after_pass_witness:
  "ps_wf field_faint \<and> \<not> paused cfg0 \<and> 0 < length (grid_of ToFood field_faint) \<and>
   grid_of ToFood field_faint ! 0 \<le> pheromoneFadeThreshold cfg0 \<and>
   grid_of ToFood (PheromoneSystem_update cfg0 field_faint) ! 0 = 4.95 \<and>
   ps_wf field_fading \<and>
   grid_of ToFood field_fading ! 0 > pheromoneFadeThreshold cfg0 \<and>
   grid_of ToFood field_fading ! 0 * evaporationRate cfg0 ToFood < pheromoneFadeThreshold cfg0 \<and>
   grid_of ToFood (PheromoneSystem_update cfg0 field_fading) ! 0 = 0"
proof -
  have run: "\<not> paused cfg0" by (simp add: cfg0_def)
  have i1: "0 < length (grid_of ToFood field_faint)" by (simp add: field_faint_def)
  have i2: "0 < length (grid_of ToFood field_fading)" by (simp add: field_fading_def)
  have q1: "\<forall>j<length (grid_of ToFood field_faint). j \<noteq> 0 \<longrightarrow>
              0 \<in> set (neighbors field_faint ! j) \<longrightarrow>
              \<not> evaporated (pheromoneFadeThreshold cfg0) (evaporationRate cfg0 ToFood)
                   (grid_of ToFood field_faint ! j) > pheromoneFadeThreshold cfg0"
    by (simp add: field_faint_def cfg0_def evaporated_def less_Suc_eq numeral_2_eq_2)
  have q2: "\<forall>j<length (grid_of ToFood field_fading). j \<noteq> 0 \<longrightarrow>
              0 \<in> set (neighbors field_fading ! j) \<longrightarrow>
              \<not> evaporated (pheromoneFadeThreshold cfg0) (evaporationRate cfg0 ToFood)
                   (grid_of ToFood field_fading ! j) > pheromoneFadeThreshold cfg0"
    by (simp add: field_fading_def cfg0_def evaporated_def less_Suc_eq numeral_2_eq_2)
  show ?thesis
    using quiet_cell_after_pass [OF field_faint_wf run i1 q1]
      quiet_cell_after_pass [OF field_fading_wf run i2 q2]
      field_faint_wf field_fading_wf run
    by (simp add: field_faint_def field_fading_def cfg0_def)
qed

section \<open>Cells of the spatial grid\<close>

lemma set_concat_upto:
  "set (concat (map f [a..b])) = (\<Union>k\<in>{a..b}. set (f k))"
  by simp

lemma floor_div_le_iff:
  fixes c :: real
  assumes "0 < c"
  shows "\<lfloor>y / c\<rfloor> \<le> k \<longleftrightarrow> y < (of_int k + 1) * c"
proof -
  have "\<lfloor>y / c\<rfloor> \<le> k \<longleftrightarrow> y / c < of_int k + 1" by (rule floor_le_iff)
  also have "\<dots> \<longleftrightarrow> y < (of_int k + 1) * c" using assms by (rule pos_divide_less_eq)
  finally show ?thesis .
qed

lemma le_floor_div_iff:
  fixes c :: real
  assumes "0 < c"
  shows "k \<le> \<lfloor>y / c\<rfloor> \<longleftrightarrow> of_int k * c \<le> y"
proof -
  have "k \<le> \<lfloor>y / c\<rfloor> \<longleftrightarrow> of_int k \<le> y / c" by (rule le_floor_iff)
  also have "\<dots> \<longleftrightarrow> of_int k * c \<le> y" using assms by (rule pos_le_divide_eq)
  finally show ?thesis .
qed

lemma queryRadius_cells:
  assumes "0 < cellSize g"
  shows "set (queryRadius g p r) =
           {e. \<exists>col row. in_bounds_cell g col row \<and> cell_overlaps_box g col row p r \<and>
                  e \<in> set (sg_grid g ! nat (row * sg_cols g + col))}"
proof -
  let ?minCol = "max 0 \<lfloor>(px p - r) / cellSize g\<rfloor>"
  let ?maxCol = "min (sg_cols g - 1) \<lfloor>(px p + r) / cellSize g\<rfloor>"
  let ?minRow = "max 0 \<lfloor>(py p - r) / cellSize g\<rfloor>"
  let ?maxRow = "min (sg_rows g - 1) \<lfloor>(py p + r) / cellSize g\<rfloor>"
  have cells: "in_bounds_cell g col row \<and> cell_overlaps_box g col row p r \<longleftrightarrow>
                 row \<in> {?minRow..?maxRow} \<and> col \<in> {?minCol..?maxCol}" for col row
    using floor_div_le_iff [OF assms] le_floor_div_iff [OF assms]
    by (auto simp: in_bounds_cell_def cell_overlaps_box_def)
  have mem: "e \<in> set (queryRadius g p r) \<longleftrightarrow>
          (\<exists>row\<in>{?minRow..?maxRow}. \<exists>col\<in>{?minCol..?maxCol}.
              e \<in> set (sg_grid g ! nat (row * sg_cols g + col)))" for e
    by (simp add: queryRadius_def Let_def)
  have "e \<in> set (queryRadius g p r) \<longleftrightarrow>
          (\<exists>col row. (row \<in> {?minRow..?maxRow} \<and> col \<in> {?minCol..?maxCol}) \<and>
              e \<in> set (sg_grid g ! nat (row * sg_cols g + col)))" for e
    unfolding mem by blast
  then have "e \<in> set (queryRadius g p r) \<longleftrightarrow>
          (\<exists>col row. (in_bounds_cell g col row \<and> cell_overlaps_box g col row p r) \<and>
              e \<in> set (sg_grid g ! nat (row * sg_cols g + col)))" for e
    by (simp only: cells)
  then show ?thesis by blast
qed

lemma distance_bounds:
  assumes "distance q p \<le> r"
  shows "\<bar>px q - px p\<bar> \<le> r \<and> \<bar>py q - py p\<bar> \<le> r"
proof -
  let ?dx = "px q - px p" and ?dy = "py q - py p"
  have d: "distance q p = sqrt (?dx\<^sup>2 + ?dy\<^sup>2)"
    by (simp add: distance_def Vector_magnitude_def Vector_subtract_def power2_eq_square)
  have "\<bar>?dx\<bar> = sqrt (?dx\<^sup>2)" by simp
  also have "\<dots> \<le> sqrt (?dx\<^sup>2 + ?dy\<^sup>2)" by (rule real_sqrt_le_mono) simp
  finally have x: "\<bar>?dx\<bar> \<le> distance q p" by (simp only: d)
  have "\<bar>?dy\<bar> = sqrt (?dy\<^sup>2)" by simp
  also have "\<dots> \<le> sqrt (?dx\<^sup>2 + ?dy\<^sup>2)" by (rule real_sqrt_le_mono) simp
  finally have y: "\<bar>?dy\<bar> \<le> distance q p" by (simp only: d)
  from x y assms show ?thesis by simp
qed

lemma own_cell_overlaps:
  assumes c: "0 < cellSize g" and d: "distance (position e) p \<le> r"
  shows "cell_overlaps_box g \<lfloor>px (position e) / cellSize g\<rfloor> \<lfloor>py (position e) / cellSize g\<rfloor> p r"
proof -
  let ?q = "position e"
  have b: "\<bar>px ?q - px p\<bar> \<le> r \<and> \<bar>py ?q - py p\<bar> \<le> r" by (rule distance_bounds [OF d])
  have x1: "of_int \<lfloor>px ?q / cellSize g\<rfloor> * cellSize g \<le> px ?q"
    using le_floor_div_iff [OF c, of "\<lfloor>px ?q / cellSize g\<rfloor>" "px ?q"] by simp
  have x2: "px ?q < (of_int \<lfloor>px ?q / cellSize g\<rfloor> + 1) * cellSize g"
    using floor_div_le_iff [OF c, of "px ?q" "\<lfloor>px ?q / cellSize g\<rfloor>"] by simp
  have y1: "of_int \<lfloor>py ?q / cellSize g\<rfloor> * cellSize g \<le> py ?q"
    using le_floor_div_iff [OF c, of "\<lfloor>py ?q / cellSize g\<rfloor>" "py ?q"] by simp
  have y2: "py ?q < (of_int \<lfloor>py ?q / cellSize g\<rfloor> + 1) * cellSize g"
    using floor_div_le_iff [OF c, of "py ?q" "\<lfloor>py ?q / cellSize g\<rfloor>"] by simp
  show ?thesis unfolding cell_overlaps_box_def using b x1 x2 y1 y2 by linarith
qed

lemma SpatialGrid_posToIndex_cases:
  "SpatialGrid_posToIndex g q = -1 \<or>
   (in_bounds_cell g \<lfloor>px q / cellSize g\<rfloor> \<lfloor>py q / cellSize g\<rfloor> \<and>
    SpatialGrid_posToIndex g q = \<lfloor>py q / cellSize g\<rfloor> * sg_cols g + \<lfloor>px q / cellSize g\<rfloor>)"
  by (auto simp: SpatialGrid_posToIndex_def in_bounds_cell_def Let_def)

text \<open>
  The overlap test means what its name says: for a radius that is not negative, the
  cell and the box overlap exactly when some position lies in both.
\<close>

lemma cell_overlaps_box_common_point:
  assumes c: "0 < cellSize g" and r: "0 \<le> r"
  shows "cell_overlaps_box g col row p r \<longleftrightarrow>
           (\<exists>q::point. \<lfloor>px q / cellSize g\<rfloor> = col \<and> \<lfloor>py q / cellSize g\<rfloor> = row \<and>
                \<bar>px q - px p\<bar> \<le> r \<and> \<bar>py q - py p\<bar> \<le> r)"
proof
  assume o: "cell_overlaps_box g col row p r"
  let ?x = "max (of_int col * cellSize g) (px p - r)"
  let ?y = "max (of_int row * cellSize g) (py p - r)"
  let ?q = "\<lparr>px = ?x, py = ?y\<rparr>"
  have fx: "\<lfloor>?x / cellSize g\<rfloor> = col"
  proof -
    have "col \<le> \<lfloor>?x / cellSize g\<rfloor>" using le_floor_div_iff [OF c, of col ?x] by simp
    moreover have "\<lfloor>?x / cellSize g\<rfloor> \<le> col"
      using floor_div_le_iff [OF c, of ?x col] o c by (simp add: cell_overlaps_box_def algebra_simps)
    ultimately show ?thesis by simp
  qed
  have fy: "\<lfloor>?y / cellSize g\<rfloor> = row"
  proof -
    have "row \<le> \<lfloor>?y / cellSize g\<rfloor>" using le_floor_div_iff [OF c, of row ?y] by simp
    moreover have "\<lfloor>?y / cellSize g\<rfloor> \<le> row"
      using floor_div_le_iff [OF c, of ?y row] o c by (simp add: cell_overlaps_box_def algebra_simps)
    ultimately show ?thesis by simp
  qed
  have "\<bar>?x - px p\<bar> \<le> r" "\<bar>?y - py p\<bar> \<le> r"
    using o r by (auto simp: cell_overlaps_box_def)
  with fx fy have "\<lfloor>px ?q / cellSize g\<rfloor> = col \<and> \<lfloor>py ?q / cellSize g\<rfloor> = row \<and>
                \<bar>px ?q - px p\<bar> \<le> r \<and> \<bar>py ?q - py p\<bar> \<le> r" by simp
  then show "\<exists>q::point. \<lfloor>px q / cellSize g\<rfloor> = col \<and> \<lfloor>py q / cellSize g\<rfloor> = row \<and>
                \<bar>px q - px p\<bar> \<le> r \<and> \<bar>py q - py p\<bar> \<le> r" by (rule exI)
next
  assume "\<exists>q::point. \<lfloor>px q / cellSize g\<rfloor> = col \<and> \<lfloor>py q / cellSize g\<rfloor> = row \<and>
                \<bar>px q - px p\<bar> \<le> r \<and> \<bar>py q - py p\<bar> \<le> r"
  then obtain q :: point where q: "\<lfloor>px q / cellSize g\<rfloor> = col" "\<lfloor>py q / cellSize g\<rfloor> = row"
    "\<bar>px q - px p\<bar> \<le> r" "\<bar>py q - py p\<bar> \<le> r" by blast
  have x1: "of_int col * cellSize g \<le> px q"
    using le_floor_div_iff [OF c, of col "px q"] q by simp
  have x2: "px q < (of_int col + 1) * cellSize g"
    using floor_div_le_iff [OF c, of "px q" col] q by simp
  have y1: "of_int row * cellSize g \<le> py q"
    using le_floor_div_iff [OF c, of row "py q"] q by simp
  have y2: "py q < (of_int row + 1) * cellSize g"
    using floor_div_le_iff [OF c, of "py q" row] q by simp
  show "cell_overlaps_box g col row p r"
    unfolding cell_overlaps_box_def using q(3,4) x1 x2 y1 y2 by linarith
qed

section \<open>queryRadius\<close>

text \<open>
  Claim C9. \<open>queryRadius\<close> returns exactly the entities of the buckets of the in-bounds
  cells that overlap the bounding box of the query circle (as a set: the order is the
  order of the cells and buckets, and nothing is promised about it). So an entity that is
  in the bucket of its own position and whose distance to the query position is at most
  the radius is among the results.
\<close>

theorem queryRadius_covers_box:
  assumes "0 < cellSize g"
  shows "set (queryRadius g p r) =
           {e. \<exists>col row. in_bounds_cell g col row \<and> cell_overlaps_box g col row p r \<and>
                  e \<in> set (sg_grid g ! nat (row * sg_cols g + col))} \<and>
         (\<forall>e. SpatialGrid_posToIndex g (position e) \<noteq> -1 \<and>
              e \<in> set (sg_grid g ! nat (SpatialGrid_posToIndex g (position e))) \<and>
              distance (position e) p \<le> r \<longrightarrow> e \<in> set (queryRadius g p r))"
proof (intro conjI allI impI)
  show cells: "set (queryRadius g p r) =
           {e. \<exists>col row. in_bounds_cell g col row \<and> cell_overlaps_box g col row p r \<and>
                  e \<in> set (sg_grid g ! nat (row * sg_cols g + col))}"
    by (rule queryRadius_cells [OF assms])
  fix e
  assume h: "SpatialGrid_posToIndex g (position e) \<noteq> -1 \<and>
             e \<in> set (sg_grid g ! nat (SpatialGrid_posToIndex g (position e))) \<and>
             distance (position e) p \<le> r"
  let ?col = "\<lfloor>px (position e) / cellSize g\<rfloor>" and ?row = "\<lfloor>py (position e) / cellSize g\<rfloor>"
  from h SpatialGrid_posToIndex_cases [of g "position e"]
  have ib: "in_bounds_cell g ?col ?row"
    and idx: "SpatialGrid_posToIndex g (position e) = ?row * sg_cols g + ?col" by auto
  have ov: "cell_overlaps_box g ?col ?row p r" using assms h by (intro own_cell_overlaps) simp_all
  have "e \<in> set (sg_grid g ! nat (?row * sg_cols g + ?col))" using h idx by simp
  with ib ov show "e \<in> set (queryRadius g p r)" unfolding cells by blast
qed

theorem queryRadius_covers_box_witness:
  "0 < cellSize sgrid4 \<and>
   queryRadius sgrid4 \<lparr>px = 15, py = 5\<rparr> 12 = [ent_a, ent_b] \<and>
   SpatialGrid_posToIndex sgrid4 (position ent_b) = 1 \<and>
   distance (position ent_b) \<lparr>px = 15, py = 5\<rparr> = 10 \<and>
   ent_b \<in> set (queryRadius sgrid4 \<lparr>px = 15, py = 5\<rparr> 12) \<and>
   in_bounds_cell sgrid4 1 0 \<and> cell_overlaps_box sgrid4 1 0 \<lparr>px = 15, py = 5\<rparr> 12"
proof -
  have c: "0 < cellSize sgrid4" by (simp add: sgrid4_def)
  have i: "SpatialGrid_posToIndex sgrid4 (position ent_b) = 1"
    by (simp add: SpatialGrid_posToIndex_def sgrid4_def ent_b_def)
  have "sqrt (100::real) = 10" using real_sqrt_abs [of "10::real"] by simp
  then have d: "distance (position ent_b) \<lparr>px = 15, py = 5\<rparr> = 10"
    by (simp add: distance_def Vector_magnitude_def Vector_subtract_def ent_b_def)
  have b: "ent_b \<in> set (sg_grid sgrid4 ! nat (SpatialGrid_posToIndex sgrid4 (position ent_b)))"
    by (simp add: i) (simp add: sgrid4_def)
  have q: "queryRadius sgrid4 \<lparr>px = 15, py = 5\<rparr> 12 = [ent_a, ent_b]"
    by (simp add: queryRadius_def sgrid4_def upto.simps)
  have o: "in_bounds_cell sgrid4 1 0 \<and> cell_overlaps_box sgrid4 1 0 \<lparr>px = 15, py = 5\<rparr> 12"
    by (simp add: in_bounds_cell_def cell_overlaps_box_def sgrid4_def)
  note t = queryRadius_covers_box [OF c, of "\<lparr>px = 15, py = 5\<rparr>" 12]
  from i b d have "SpatialGrid_posToIndex sgrid4 (position ent_b) \<noteq> -1 \<and>
      ent_b \<in> set (sg_grid sgrid4 ! nat (SpatialGrid_posToIndex sgrid4 (position ent_b))) \<and>
      distance (position ent_b) \<lparr>px = 15, py = 5\<rparr> \<le> 12" by simp
  with t have m: "ent_b \<in> set (queryRadius sgrid4 \<lparr>px = 15, py = 5\<rparr> 12)" by blast
  from c q i d m o show ?thesis by blast
qed

section \<open>What an ant update leaves alone\<close>














lemma Ant_update_exhausted:
  assumes "isAlive ant" and "\<not> paused cfg"
    and "energy ant - energyConsumption cfg * speedMultiplier cfg \<le> 0"
  shows "Ant_update rnd cfg ant sim =
           (ant\<lparr>energy := energy ant - energyConsumption cfg * speedMultiplier cfg,
                isAlive := False\<rparr>, sim)"
  using assms by (simp add: Ant_update_def Let_def)



lemma new_Ant_colony: "antColony (snd (new_Ant rnd cfg np k sim)) = antColony sim"
  by (simp add: new_Ant_def Let_def Math_random_def split: prod.splits)



section \<open>Energy exhaustion\<close>



section \<open>Following a trail\<close>

lemma sensePheromone_state [simp]: "snd (sensePheromone grid p angle sa sd ps) = ps"
  by (simp add: getPheromoneAt_def sensePheromone_def Let_def split: prod.splits)

text \<open>
  Claim C8. In the branch that follows pheromones, a searching ant (\<open>searchForFood\<close>)
  reads the to-food grid and a returning ant (\<open>returnToNest\<close>) the to-nest grid. When
  the largest of the three sensor values exceeds the fade threshold, the heading decreases
  by the turn speed (left) exactly when left is strictly greater than forward and right,
  increases by it (right) exactly when right is strictly greater than forward and left,
  and is unchanged in every other case.
\<close>

theorem exploitation_turns_on_strict_maximum:
  "(let S = fst (sensePheromone (toFoodGrid (pheromoneSystem sim)) (position ant) (direction ant)
                  (sensorAngle cfg) (sensorDistance cfg) (pheromoneSystem sim))
    in canAntCollectFood cfg (foodManager sim) (position ant) = None \<and>
       calculateAvoidanceForce cfg (obstacleManager sim) ant = None \<and>
       \<not> rnd (randomCalls sim) < explorationRate ant \<and>
       max (max (forward S) (left S)) (right S) > pheromoneFadeThreshold cfg \<longrightarrow>
         direction (fst (searchForFood rnd cfg ant sim)) =
           (if left S > forward S \<and> left S > right S then direction ant - turnSpeed ant
            else if right S > forward S \<and> right S > left S then direction ant + turnSpeed ant
            else direction ant)) \<and>
   (let S = fst (sensePheromone (toNestGrid (pheromoneSystem sim)) (position ant) (direction ant)
                  (sensorAngle cfg) (sensorDistance cfg) (pheromoneSystem sim))
    in \<not> Nest_contains (nest sim) (position ant) \<and>
       calculateAvoidanceForce cfg (obstacleManager sim) ant = None \<and>
       \<not> Vector_magnitude \<lparr>px = px (nestPosition ant) - px (position ant),
                            py = py (nestPosition ant) - py (position ant)\<rparr> < nestSize cfg * 2 \<and>
       \<not> rnd (randomCalls sim) < returnHomeBias cfg \<and>
       max (max (forward S) (left S)) (right S) > pheromoneFadeThreshold cfg \<longrightarrow>
         direction (fst (returnToNest rnd cfg ant sim)) =
           (if left S > forward S \<and> left S > right S then direction ant - turnSpeed ant
            else if right S > forward S \<and> right S > left S then direction ant + turnSpeed ant
            else direction ant))"
proof (intro conjI)
  let ?SF = "sensePheromone (toFoodGrid (pheromoneSystem sim)) (position ant) (direction ant)
               (sensorAngle cfg) (sensorDistance cfg) (pheromoneSystem sim)"
  obtain S ps' where s: "?SF = (S, ps')" by (cases ?SF)
  have p: "ps' = pheromoneSystem sim" using sensePheromone_state [of "toFoodGrid (pheromoneSystem sim)"
      "position ant" "direction ant" "sensorAngle cfg" "sensorDistance cfg" "pheromoneSystem sim"]
    by (simp add: s)
  show "let S = fst ?SF
        in canAntCollectFood cfg (foodManager sim) (position ant) = None \<and>
           calculateAvoidanceForce cfg (obstacleManager sim) ant = None \<and>
           \<not> rnd (randomCalls sim) < explorationRate ant \<and>
           max (max (forward S) (left S)) (right S) > pheromoneFadeThreshold cfg \<longrightarrow>
             direction (fst (searchForFood rnd cfg ant sim)) =
               (if left S > forward S \<and> left S > right S then direction ant - turnSpeed ant
                else if right S > forward S \<and> right S > left S then direction ant + turnSpeed ant
                else direction ant)"
    by (simp add: s p searchForFood_def Let_def Math_random_def)
next
  let ?SN = "sensePheromone (toNestGrid (pheromoneSystem sim)) (position ant) (direction ant)
               (sensorAngle cfg) (sensorDistance cfg) (pheromoneSystem sim)"
  obtain S ps' where s: "?SN = (S, ps')" by (cases ?SN)
  have p: "ps' = pheromoneSystem sim" using sensePheromone_state [of "toNestGrid (pheromoneSystem sim)"
      "position ant" "direction ant" "sensorAngle cfg" "sensorDistance cfg" "pheromoneSystem sim"]
    by (simp add: s)
  show "let S = fst ?SN
        in \<not> Nest_contains (nest sim) (position ant) \<and>
           calculateAvoidanceForce cfg (obstacleManager sim) ant = None \<and>
           \<not> Vector_magnitude \<lparr>px = px (nestPosition ant) - px (position ant),
                                py = py (nestPosition ant) - py (position ant)\<rparr> < nestSize cfg * 2 \<and>
           \<not> rnd (randomCalls sim) < returnHomeBias cfg \<and>
           max (max (forward S) (left S)) (right S) > pheromoneFadeThreshold cfg \<longrightarrow>
             direction (fst (returnToNest rnd cfg ant sim)) =
               (if left S > forward S \<and> left S > right S then direction ant - turnSpeed ant
                else if right S > forward S \<and> right S > left S then direction ant + turnSpeed ant
                else direction ant)"
    by (simp add: s p returnToNest_def Let_def Math_random_def)
qed

lemma sense_field9:
  "fst (sensePheromone [0, 50, 0, 0, 0, 20, 0, 10, 0] \<lparr>px = 20, py = 20\<rparr> 0 (pi / 2) 15 field9) =
     \<lparr>forward = 20, left = 50, right = 10\<rparr>"
  by (simp add: sensePheromone_def getPheromoneAt_def posToIndex_def field9_def Let_def)

theorem exploitation_turns_on_strict_maximum_witness:
  "canAntCollectFood cfg_side (foodManager trail_arena) (position ant0) = None \<and>
   calculateAvoidanceForce cfg_side (obstacleManager trail_arena) ant0 = None \<and>
   \<not> rnd_half (randomCalls trail_arena) < explorationRate ant0 \<and>
   fst (sensePheromone (toFoodGrid (pheromoneSystem trail_arena)) (position ant0) (direction ant0)
          (sensorAngle cfg_side) (sensorDistance cfg_side) (pheromoneSystem trail_arena)) =
     \<lparr>forward = 20, left = 50, right = 10\<rparr> \<and>
   direction (fst (searchForFood rnd_half cfg_side ant0 trail_arena)) = - 0.15 \<and>
   \<not> Nest_contains (nest trail_arena) (position ant_home) \<and>
   \<not> rnd_half (randomCalls trail_arena) < returnHomeBias cfg_side \<and>
   direction (fst (returnToNest rnd_half cfg_side ant_home trail_arena)) = - 0.15"
proof -
  have sq: "sqrt (10000::real) = 100" using real_sqrt_abs [of "100::real"] by simp
  have f: "canAntCollectFood cfg_side (foodManager trail_arena) (position ant0) = None"
    by (simp add: trail_arena_def arena_def)
  have o1: "calculateAvoidanceForce cfg_side (obstacleManager trail_arena) ant0 = None"
    and o2: "calculateAvoidanceForce cfg_side (obstacleManager trail_arena) ant_home = None"
    by (simp_all add: calculateAvoidanceForce_def trail_arena_def arena_def Let_def)
  have r1: "\<not> rnd_half (randomCalls trail_arena) < explorationRate ant0"
    and r2: "\<not> rnd_half (randomCalls trail_arena) < returnHomeBias cfg_side"
    by (simp_all add: rnd_half_def ant0_def cfg_side_def cfg0_def)
  have s1: "fst (sensePheromone (toFoodGrid (pheromoneSystem trail_arena)) (position ant0)
              (direction ant0) (sensorAngle cfg_side) (sensorDistance cfg_side)
              (pheromoneSystem trail_arena)) = \<lparr>forward = 20, left = 50, right = 10\<rparr>"
    using sense_field9 by (simp add: trail_arena_def ant0_def cfg_side_def cfg0_def) (simp add: field9_def)
  have s2: "fst (sensePheromone (toNestGrid (pheromoneSystem trail_arena)) (position ant_home)
              (direction ant_home) (sensorAngle cfg_side) (sensorDistance cfg_side)
              (pheromoneSystem trail_arena)) = \<lparr>forward = 20, left = 50, right = 10\<rparr>"
    using sense_field9
    by (simp add: trail_arena_def ant_home_def ant0_def cfg_side_def cfg0_def) (simp add: field9_def)
  have n: "\<not> Nest_contains (nest trail_arena) (position ant_home)"
    using sq by (simp add: Nest_contains_def distance_def Vector_magnitude_def Vector_subtract_def
                   trail_arena_def ant_home_def ant0_def)
  have m: "\<not> Vector_magnitude \<lparr>px = px (nestPosition ant_home) - px (position ant_home),
              py = py (nestPosition ant_home) - py (position ant_home)\<rparr> < nestSize cfg_side * 2"
    using sq by (simp add: Vector_magnitude_def ant_home_def ant0_def cfg_side_def cfg0_def)
  have t: "pheromoneFadeThreshold cfg_side = 5" by (simp add: cfg_side_def cfg0_def)
  note c = exploitation_turns_on_strict_maximum [of trail_arena ant0 cfg_side rnd_half,
             THEN conjunct1, unfolded Let_def s1, THEN mp]
  have d1: "direction (fst (searchForFood rnd_half cfg_side ant0 trail_arena)) = - 0.15"
    using c f o1 r1 t by (simp add: ant0_def)
  note c' = exploitation_turns_on_strict_maximum [of trail_arena ant_home cfg_side rnd_half,
              THEN conjunct2, unfolded Let_def s2, THEN mp]
  have d2: "direction (fst (returnToNest rnd_half cfg_side ant_home trail_arena)) = - 0.15"
    using c' n o2 m r2 t by (simp add: ant_home_def ant0_def)
  from f o1 r1 s1 d1 n r2 d2 show ?thesis by blast
qed

section \<open>Collecting food\<close>

lemma canAntCollectFood_Some:
  assumes "canAntCollectFood cfg foods p = Some k"
  shows "k < length foods \<and> canCollect cfg (foods ! k) p"
  using assms
proof (induction foods arbitrary: k)
  case Nil
  then show ?case by simp
next
  case (Cons f fs)
  show ?case
  proof (cases "canCollect cfg f p")
    case True
    with Cons.prems show ?thesis by simp
  next
    case False
    with Cons.prems obtain j where j: "canAntCollectFood cfg fs p = Some j" and k: "k = Suc j"
      by auto
    from Cons.IH [OF j] k show ?thesis by simp
  qed
qed

lemma boundPosition_state:
  "state (boundPosition w h ant) = state ant \<and>
   carryingFood (boundPosition w h ant) = carryingFood ant"
  by (simp add: boundPosition_def Let_def)

lemma depositPheromones_state:
  "state (fst (depositPheromones cfg ant sim)) = state ant \<and>
   carryingFood (fst (depositPheromones cfg ant sim)) = carryingFood ant"
  by (simp add: depositPheromones_def Let_def split: ant_state.splits)

lemma updateTrail_state:
  "state (updateTrail ant) = state ant \<and> carryingFood (updateTrail ant) = carryingFood ant"
  by (simp add: updateTrail_def Let_def)

lemma searchForFood_collects:
  assumes f: "canAntCollectFood cfg (foodManager sim) (position ant) = Some k"
  shows "searchForFood rnd cfg ant sim =
          (let granted = min 1 (quantity (foodManager sim ! k));
               sim1 = sim\<lparr>foodManager := (foodManager sim)[k := snd (Food_take 1 (foodManager sim ! k))]\<rparr>
           in if granted > 0
              then (ant\<lparr>carryingFood := granted, state := Returning,
                        direction := atan2 (py (nestPosition ant) - py (position ant))
                                       (px (nestPosition ant) - px (position ant))\<rparr>,
                    createFoodParticleEffect sim1)
              else (ant\<lparr>carryingFood := granted\<rparr>, sim1))"
  using f by (simp add: searchForFood_def Let_def Food_take_def calculateDirectionToNest_def)

lemma Ant_update_state_after_steering:
  assumes run: "isAlive ant" "\<not> paused cfg"
    and en: "energy ant - energyConsumption cfg * speedMultiplier cfg > 0"
    and st: "(case state ant of
                Searching \<Rightarrow> searchForFood rnd cfg
                   (ant\<lparr>energy := energy ant - energyConsumption cfg * speedMultiplier cfg\<rparr>) sim
              | Returning \<Rightarrow> returnToNest rnd cfg
                   (ant\<lparr>energy := energy ant - energyConsumption cfg * speedMultiplier cfg\<rparr>) sim)
             = (a2, s2)"
  shows "state (fst (Ant_update rnd cfg ant sim)) = state a2 \<and>
         carryingFood (fst (Ant_update rnd cfg ant sim)) = carryingFood a2"
proof -
  let ?cs = "(if carryingFood a2 > 0 then speed a2 * carrierSpeed cfg else speed a2)
               * speedMultiplier cfg"
  let ?a3 = "a2\<lparr>position := \<lparr>px = px (position a2) + cos (direction a2) * ?cs,
                                py = py (position a2) + sin (direction a2) * ?cs\<rparr>\<rparr>"
  let ?a4 = "boundPosition (width s2) (height s2) ?a3"
  obtain a5 s3 where dp: "depositPheromones cfg ?a4 s2 = (a5, s3)"
    by (cases "depositPheromones cfg ?a4 s2")
  have "state a5 = state ?a4 \<and> carryingFood a5 = carryingFood ?a4"
    using depositPheromones_state [of cfg ?a4 s2] by (simp add: dp)
  then have s5: "state a5 = state a2 \<and> carryingFood a5 = carryingFood a2"
    by (simp add: boundPosition_state)
  let ?a6 = "if trailHistory cfg then updateTrail a5 else a5\<lparr>trail := []\<rparr>"
  have "Ant_update rnd cfg ant sim = (?a6, s3)"
    using run en st dp by (simp add: Ant_update_def Let_def)
  then show ?thesis using s5 by (simp add: updateTrail_state)
qed

section \<open>What the colony update does to the field\<close>

lemma deposits_append: "deposits cfg (ds @ es) ps = deposits cfg es (deposits cfg ds ps)"
  by (simp add: deposits_def)

lemma searchForFood_field:
  "pheromoneSystem (snd (searchForFood rnd cfg ant sim)) = pheromoneSystem sim"
  by (simp add: searchForFood_def Let_def Math_random_def createFoodParticleEffect_def
        split: option.splits prod.splits)
     (metis sensePheromone_state snd_conv)

lemma returnToNest_field:
  "pheromoneSystem (snd (returnToNest rnd cfg ant sim)) = pheromoneSystem sim"
  by (simp add: returnToNest_def Let_def Math_random_def createFoodStorageEffect_def
        split: option.splits prod.splits)
     (metis sensePheromone_state snd_conv)

lemma depositPheromones_field:
  "\<exists>ds. length ds \<le> 1 \<and>
        pheromoneSystem (snd (depositPheromones cfg ant sim)) = deposits cfg ds (pheromoneSystem sim)"
proof (cases "Suc (lastDepositionTime ant) < depositionInterval ant")
  case True
  then have "pheromoneSystem (snd (depositPheromones cfg ant sim)) = deposits cfg [] (pheromoneSystem sim)"
    by (simp add: depositPheromones_def Let_def deposits_def)
  then show ?thesis by (intro exI [of _ "[]"]) simp
next
  case False
  show ?thesis
  proof (cases "state ant")
    case Searching
    with False have "pheromoneSystem (snd (depositPheromones cfg ant sim)) =
        deposits cfg [(ToNest, position ant, toNestStrength cfg * 1)] (pheromoneSystem sim)"
      by (simp add: depositPheromones_def Let_def deposits_def depositToNest_def)
    then show ?thesis by (intro exI [of _ "[(ToNest, position ant, toNestStrength cfg * 1)]"]) simp
  next
    case Returning
    with False have "pheromoneSystem (snd (depositPheromones cfg ant sim)) =
        deposits cfg [(ToFood, position ant, toFoodStrength cfg * carryingFood ant)] (pheromoneSystem sim)"
      by (simp add: depositPheromones_def Let_def deposits_def depositToFood_def)
    then show ?thesis
      by (intro exI [of _ "[(ToFood, position ant, toFoodStrength cfg * carryingFood ant)]"]) simp
  qed
qed

lemma Ant_update_field:
  "\<exists>ds. length ds \<le> 1 \<and>
        pheromoneSystem (snd (Ant_update rnd cfg ant sim)) = deposits cfg ds (pheromoneSystem sim)"
proof (cases "\<not> isAlive ant \<or> paused cfg \<or>
              energy ant - energyConsumption cfg * speedMultiplier cfg \<le> 0")
  case True
  then have "pheromoneSystem (snd (Ant_update rnd cfg ant sim)) = deposits cfg [] (pheromoneSystem sim)"
    by (auto simp: Ant_update_def Let_def deposits_def)
  then show ?thesis by (intro exI [of _ "[]"]) simp
next
  case False
  let ?a1 = "ant\<lparr>energy := energy ant - energyConsumption cfg * speedMultiplier cfg\<rparr>"
  let ?st = "case state ant of Searching \<Rightarrow> searchForFood rnd cfg ?a1 sim
             | Returning \<Rightarrow> returnToNest rnd cfg ?a1 sim"
  obtain a2 s2 where st: "?st = (a2, s2)" by (cases ?st)
  have "pheromoneSystem (snd ?st) = pheromoneSystem sim"
    by (cases "state ant") (simp_all add: searchForFood_field returnToNest_field)
  then have f2: "pheromoneSystem s2 = pheromoneSystem sim" by (simp add: st)
  let ?cs = "(if carryingFood a2 > 0 then speed a2 * carrierSpeed cfg else speed a2)
               * speedMultiplier cfg"
  let ?a3 = "a2\<lparr>position := \<lparr>px = px (position a2) + cos (direction a2) * ?cs,
                                py = py (position a2) + sin (direction a2) * ?cs\<rparr>\<rparr>"
  let ?a4 = "boundPosition (width s2) (height s2) ?a3"
  obtain a5 s3 where dp: "depositPheromones cfg ?a4 s2 = (a5, s3)"
    by (cases "depositPheromones cfg ?a4 s2")
  from depositPheromones_field [of cfg ?a4 s2]
  obtain ds where ds: "length ds \<le> 1" "pheromoneSystem s3 = deposits cfg ds (pheromoneSystem s2)"
    by (auto simp: dp)
  let ?a6 = "if trailHistory cfg then updateTrail a5 else a5\<lparr>trail := []\<rparr>"
  have "Ant_update rnd cfg ant sim = (?a6, s3)"
    using False st dp by (simp add: Ant_update_def Let_def)
  then have "pheromoneSystem (snd (Ant_update rnd cfg ant sim)) = deposits cfg ds (pheromoneSystem sim)"
    using ds f2 by simp
  with ds(1) show ?thesis by blast
qed

lemma update_ants_field:
  "\<exists>ds. length ds \<le> length as \<and>
        pheromoneSystem (snd (update_ants rnd cfg as sim)) = deposits cfg ds (pheromoneSystem sim)"
proof (induction as arbitrary: sim)
  case Nil
  have "pheromoneSystem (snd (update_ants rnd cfg [] sim)) = deposits cfg [] (pheromoneSystem sim)"
    by (simp add: deposits_def)
  then show ?case by (intro exI [of _ "[]"]) simp
next
  case (Cons a as)
  obtain a' s1 where u: "Ant_update rnd cfg a sim = (a', s1)" by (cases "Ant_update rnd cfg a sim")
  obtain as' s2 where r: "update_ants rnd cfg as s1 = (as', s2)"
    by (cases "update_ants rnd cfg as s1")
  from Ant_update_field [of rnd cfg a sim]
  obtain ds where ds: "length ds \<le> 1" "pheromoneSystem s1 = deposits cfg ds (pheromoneSystem sim)"
    by (auto simp: u)
  from Cons.IH [of s1]
  obtain es where es: "length es \<le> length as"
    "pheromoneSystem s2 = deposits cfg es (pheromoneSystem s1)"
    by (auto simp: r)
  have "pheromoneSystem (snd (update_ants rnd cfg (a # as) sim)) =
          deposits cfg (ds @ es) (pheromoneSystem sim)"
    using ds es by (simp add: u r deposits_append)
  moreover have "length (ds @ es) \<le> length (a # as)" using ds es by simp
  ultimately show ?case by blast
qed

lemma new_Ant_field: "pheromoneSystem (snd (new_Ant rnd cfg np k sim)) = pheromoneSystem sim"
  by (simp add: new_Ant_def Let_def Math_random_def split: prod.splits)

lemma addAnt_field: "pheromoneSystem (addAnt rnd cfg sim) = pheromoneSystem sim"
proof -
  obtain a s1 where n: "new_Ant rnd cfg (colony_nestPosition (antColony sim))
                          (antIdCounter (antColony sim)) sim = (a, s1)"
    by (cases "new_Ant rnd cfg (colony_nestPosition (antColony sim)) (antIdCounter (antColony sim)) sim")
  have "pheromoneSystem s1 = pheromoneSystem sim"
    using new_Ant_field [of rnd cfg "colony_nestPosition (antColony sim)"
            "antIdCounter (antColony sim)" sim] by (simp add: n)
  then show ?thesis by (simp add: addAnt_def Let_def n)
qed

lemma AntColony_update_field:
  "\<exists>ds. length ds \<le> length (ants (antColony sim)) \<and>
        pheromoneSystem (AntColony_update rnd cfg sim) = deposits cfg ds (pheromoneSystem sim)"
proof (cases "paused cfg")
  case True
  then have "pheromoneSystem (AntColony_update rnd cfg sim) = deposits cfg [] (pheromoneSystem sim)"
    by (simp add: AntColony_update_def deposits_def)
  then show ?thesis by (intro exI [of _ "[]"]) simp
next
  case False
  obtain ants1 s1 where u: "update_ants rnd cfg (ants (antColony sim)) sim = (ants1, s1)"
    by (cases "update_ants rnd cfg (ants (antColony sim)) sim")
  from update_ants_field [of "ants (antColony sim)" rnd cfg sim]
  obtain ds where ds: "length ds \<le> length (ants (antColony sim))"
    "pheromoneSystem s1 = deposits cfg ds (pheromoneSystem sim)" by (auto simp: u)
  let ?s2 = "s1\<lparr>antColony := (antColony s1)\<lparr>ants := filter isAlive ants1\<rparr>\<rparr>"
  obtain r s3 where m: "Math_random rnd ?s2 = (r, s3)" by (cases "Math_random rnd ?s2")
  have f3: "pheromoneSystem s3 = pheromoneSystem s1" using m by (auto simp: Math_random_def)
  have "pheromoneSystem (AntColony_update rnd cfg sim) = pheromoneSystem s1"
    using False u m f3 by (simp add: AntColony_update_def Let_def addAnt_field)
  with ds show ?thesis by auto
qed

section \<open>The order of a simulation step\<close>

lemmas ant_eval =
  Ant_update_def searchForFood_def depositPheromones_def boundPosition_def updateTrail_def
  calculateAvoidanceForce_def sensePheromone_def getPheromoneAt_def posToIndex_def
  Math_random_def depositToNest_def depositToFood_def deposit_def Let_def

lemma ant0_step:
  "Ant_update rnd_half cfg_narrow ant0 (arena [ant0] []) =
     (ant0\<lparr>position := \<lparr>px = 22, py = 20\<rparr>, energy := 99.95, lastDepositionTime := 0\<rparr>,
      (arena [ant0] [])\<lparr>pheromoneSystem := field_empty\<lparr>toNestGrid := [100, 0],
          dirtyRegions := {0}, visualizationNeedsUpdate := True\<rparr>, randomCalls := 2\<rparr>)"
  by (simp add: ant_eval arena_def ant0_def cfg_narrow_def cfg0_def rnd_half_def field_empty_def)

lemma arena_fields:
  "initialized (arena as fs)" "foodManager (arena as fs) = fs"
  "pheromoneSystem (arena as fs) = field_empty" "ants (antColony (arena as fs)) = as"
  "(arena as fs)\<lparr>foodManager := fs\<rparr> = arena as fs"
  "(arena as fs)\<lparr>pheromoneSystem := field_empty\<rparr> = arena as fs"
  by (simp_all add: arena_def)

lemma pass_on_empty_field: "PheromoneSystem_update cfg_narrow field_empty = field_empty"
  by (simp add: PheromoneSystem_update_def update_cell_def evaporated_def field_empty_def
        cfg_narrow_def cfg0_def Let_def)

lemma colony_step:
  "pheromoneSystem (AntColony_update rnd_half cfg_narrow (arena [ant0] [])) =
     field_empty\<lparr>toNestGrid := [100, 0], dirtyRegions := {0}, visualizationNeedsUpdate := True\<rparr>"
proof -
  have p: "\<not> paused cfg_narrow" by (simp add: cfg_narrow_def cfg0_def)
  have u: "update_ants rnd_half cfg_narrow [ant0] (arena [ant0] []) =
     ([ant0\<lparr>position := \<lparr>px = 22, py = 20\<rparr>, energy := 99.95, lastDepositionTime := 0\<rparr>],
      (arena [ant0] [])\<lparr>pheromoneSystem := field_empty\<lparr>toNestGrid := [100, 0],
          dirtyRegions := {0}, visualizationNeedsUpdate := True\<rparr>, randomCalls := 2\<rparr>)"
    by (simp add: ant0_step)
  show ?thesis
    unfolding AntColony_update_def arena_fields(4) u using p
    by (simp add: Let_def Math_random_def addAnt_field)
qed

text \<open>
  Claim C1 as stated fails. One searching ant that deposits in this step, on an empty
  field: after \<open>Simulation_update\<close> the cell of the ant holds the full deposit of 100,
  untouched by evaporation and diffusion, because the pass ran before the ant; had the
  pass run after the agents, the two cells would hold 89.55 and 9.95.
\<close>

theorem field_pass_runs_before_agents:
  "initialized (arena [ant0] []) \<and> \<not> paused cfg_narrow \<and>
   toNestGrid (pheromoneSystem (Simulation_update rnd_half cfg_narrow (arena [ant0] []))) = [100, 0] \<and>
   toNestGrid (pheromoneSystem (step_with_field_pass_last rnd_half cfg_narrow (arena [ant0] []))) =
     [89.55, 9.95]"
proof -
  have p: "\<not> paused cfg_narrow" by (simp add: cfg_narrow_def cfg0_def)
  have a: "toNestGrid (pheromoneSystem (Simulation_update rnd_half cfg_narrow (arena [ant0] []))) =
             [100, 0]"
    using p by (simp add: Simulation_update_def arena_fields FoodManager_update_def
                  pass_on_empty_field colony_step Let_def)
  let ?ps = "field_empty\<lparr>toNestGrid := [100, 0], dirtyRegions := {0},
                           visualizationNeedsUpdate := True\<rparr>"
  have "toNestGrid (PheromoneSystem_update cfg_narrow ?ps) = [89.55, 9.95]"
    using update_grid_of [of ToNest cfg_narrow ?ps]
    by (simp add: channel_pass_def channel_cell_def diffuse_to_def evaporated_def Let_def
          field_empty_def cfg_narrow_def cfg0_def)
  then have b: "toNestGrid (pheromoneSystem (step_with_field_pass_last rnd_half cfg_narrow
                   (arena [ant0] []))) = [89.55, 9.95]"
    using p by (simp add: step_with_field_pass_last_def arena_fields FoodManager_update_def
                  colony_step Let_def)
  from a b p arena_fields(1) [of "[ant0]" "[]"] show ?thesis by blast
qed

text \<open>
  Claim C1, as amended. In a step of an initialized simulation that is not paused, the
  evaporation and diffusion pass runs exactly once, after the food update and before the
  update of the colony, and is not interleaved with the agents: the agents sense and
  deposit on the field the pass has already advanced, so the field after the step is the
  field after one pass with the deposits of the step (at most one for each ant) applied
  on top.
\<close>

theorem field_pass_once_before_agents:
  assumes "initialized sim" and "\<not> paused cfg"
  shows "Simulation_update rnd cfg sim =
           (let sim2 = sim\<lparr>foodManager := FoodManager_update cfg (foodManager sim),
                             pheromoneSystem := PheromoneSystem_update cfg (pheromoneSystem sim)\<rparr>;
                sim3 = AntColony_update rnd cfg sim2
            in sim3\<lparr>time := time sim3 + timeStep cfg * speedMultiplier cfg\<rparr>) \<and>
         (\<exists>ds. length ds \<le> length (ants (antColony sim)) \<and>
               pheromoneSystem (Simulation_update rnd cfg sim) =
                 deposits cfg ds (PheromoneSystem_update cfg (pheromoneSystem sim)))"
proof
  let ?sim2 = "sim\<lparr>foodManager := FoodManager_update cfg (foodManager sim),
                     pheromoneSystem := PheromoneSystem_update cfg (pheromoneSystem sim)\<rparr>"
  show eq: "Simulation_update rnd cfg sim =
           (let sim2 = ?sim2; sim3 = AntColony_update rnd cfg sim2
            in sim3\<lparr>time := time sim3 + timeStep cfg * speedMultiplier cfg\<rparr>)"
    using assms by (simp add: Simulation_update_def Let_def)
  from AntColony_update_field [of ?sim2 rnd cfg]
  obtain ds where ds: "length ds \<le> length (ants (antColony ?sim2))"
    "pheromoneSystem (AntColony_update rnd cfg ?sim2) = deposits cfg ds (pheromoneSystem ?sim2)"
    by blast
  have "pheromoneSystem (Simulation_update rnd cfg sim) =
          deposits cfg ds (PheromoneSystem_update cfg (pheromoneSystem sim))"
    using ds(2) by (simp add: eq Let_def)
  moreover have "length ds \<le> length (ants (antColony sim))" using ds(1) by simp
  ultimately show "\<exists>ds. length ds \<le> length (ants (antColony sim)) \<and>
               pheromoneSystem (Simulation_update rnd cfg sim) =
                 deposits cfg ds (PheromoneSystem_update cfg (pheromoneSystem sim))" by blast
qed

theorem field_pass_once_before_agents_witness:
  "initialized (arena [ant0] []) \<and> \<not> paused cfg_narrow \<and>
   (\<exists>ds. length ds \<le> length (ants (antColony (arena [ant0] []))) \<and>
         pheromoneSystem (Simulation_update rnd_half cfg_narrow (arena [ant0] [])) =
           deposits cfg_narrow ds (PheromoneSystem_update cfg_narrow (pheromoneSystem (arena [ant0] []))))"
proof -
  have i: "initialized (arena [ant0] [])" by (rule arena_fields)
  have p: "\<not> paused cfg_narrow" by (simp add: cfg_narrow_def cfg0_def)
  note t = field_pass_once_before_agents [OF i p, of rnd_half, THEN conjunct2]
  from i p t show ?thesis by blast
qed

section \<open>Collecting food within a tick\<close>

lemma canAntCollectFood_finds:
  assumes "j < length foods" and "canCollect cfg (foods ! j) p"
  shows "\<exists>k\<le>j. canAntCollectFood cfg foods p = Some k"
  using assms
proof (induction foods arbitrary: j)
  case Nil
  then show ?case by simp
next
  case (Cons f fs)
  show ?case
  proof (cases "canCollect cfg f p")
    case True
    then show ?thesis by simp
  next
    case False
    with Cons.prems obtain i where i: "j = Suc i" by (cases j) auto
    with Cons.prems have "i < length fs" "canCollect cfg (fs ! i) p" by simp_all
    from Cons.IH [OF this] obtain k where "k \<le> i" "canAntCollectFood cfg fs p = Some k" by blast
    with False i show ?thesis by simp
  qed
qed

lemma depositPheromones_keeps:
  "position (fst (depositPheromones cfg ant sim)) = position ant \<and>
   direction (fst (depositPheromones cfg ant sim)) = direction ant \<and>
   foodManager (snd (depositPheromones cfg ant sim)) = foodManager sim"
  by (simp add: depositPheromones_def Let_def split: ant_state.splits)

lemma updateTrail_keeps:
  "position (updateTrail ant) = position ant \<and> direction (updateTrail ant) = direction ant"
  by (simp add: updateTrail_def Let_def)

lemma boundPosition_inside:
  assumes "10 \<le> px (position ant)" "px (position ant) \<le> w - 10"
    and "10 \<le> py (position ant)" "py (position ant) \<le> h - 10"
  shows "boundPosition w h ant = ant"
  using assms by (simp add: boundPosition_def Let_def)

lemma Ant_update_after_steering:
  assumes run: "isAlive ant" "\<not> paused cfg"
    and en: "energy ant - energyConsumption cfg * speedMultiplier cfg > 0"
    and st: "(case state ant of
                Searching \<Rightarrow> searchForFood rnd cfg
                   (ant\<lparr>energy := energy ant - energyConsumption cfg * speedMultiplier cfg\<rparr>) sim
              | Returning \<Rightarrow> returnToNest rnd cfg
                   (ant\<lparr>energy := energy ant - energyConsumption cfg * speedMultiplier cfg\<rparr>) sim)
             = (a2, s2)"
    and mv: "a4 = boundPosition (width s2) (height s2)
               (a2\<lparr>position :=
                  \<lparr>px = px (position a2) + cos (direction a2) *
                          ((if carryingFood a2 > 0 then speed a2 * carrierSpeed cfg else speed a2)
                             * speedMultiplier cfg),
                   py = py (position a2) + sin (direction a2) *
                          ((if carryingFood a2 > 0 then speed a2 * carrierSpeed cfg else speed a2)
                             * speedMultiplier cfg)\<rparr>\<rparr>)"
  shows "position (fst (Ant_update rnd cfg ant sim)) = position a4 \<and>
         direction (fst (Ant_update rnd cfg ant sim)) = direction a4 \<and>
         foodManager (snd (Ant_update rnd cfg ant sim)) = foodManager s2"
proof -
  obtain a5 s3 where dp: "depositPheromones cfg a4 s2 = (a5, s3)"
    by (cases "depositPheromones cfg a4 s2")
  have k: "position a5 = position a4 \<and> direction a5 = direction a4 \<and> foodManager s3 = foodManager s2"
    using depositPheromones_keeps [of cfg a4 s2] by (simp add: dp)
  let ?a6 = "if trailHistory cfg then updateTrail a5 else a5\<lparr>trail := []\<rparr>"
  have "Ant_update rnd cfg ant sim = (?a6, s3)"
    using run en st dp [unfolded mv] by (simp add: Ant_update_def Let_def)
  then show ?thesis using k by (simp add: updateTrail_keeps)
qed

text \<open>
  Claim C6 as stated fails on two inputs. A searching ant within range of a source of
  100 units whose energy is just the cost of one tick dies at the energy check of its
  update: it stays in state Searching, carries nothing, and the source is untouched. And
  a searching ant that collects at \<open>(50, 39)\<close> with the nest at \<open>(50, 100)\<close>, below the
  lower edge of the arena, ends the tick in state Returning with the heading \<open>- pi / 2\<close>,
  reflected at the edge, where the bearing to the nest is \<open>pi / 2\<close>.
\<close>

theorem ant_in_range_without_energy_or_at_edge:
  "state ant_tired = Searching \<and> isAlive ant_tired \<and>
   canCollect cfg0 food100 (position ant_tired) \<and>
   Ant_update rnd_half cfg0 ant_tired (arena [ant_tired] [food100]) =
     (ant_tired\<lparr>energy := 0, isAlive := False\<rparr>, arena [ant_tired] [food100]) \<and>
   state (fst (Ant_update rnd_half cfg0 ant_tired (arena [ant_tired] [food100]))) = Searching \<and>
   carryingFood (fst (Ant_update rnd_half cfg0 ant_tired (arena [ant_tired] [food100]))) = 0 \<and>
   state ant_edge = Searching \<and> isAlive ant_edge \<and>
   canCollect cfg0 food_edge (position ant_edge) \<and>
   state (fst (Ant_update rnd_half cfg0 ant_edge (arena_shrunk [ant_edge] [food_edge]))) = Returning \<and>
   position (fst (Ant_update rnd_half cfg0 ant_edge (arena_shrunk [ant_edge] [food_edge]))) =
     \<lparr>px = 50, py = 40\<rparr> \<and>
   direction (fst (Ant_update rnd_half cfg0 ant_edge (arena_shrunk [ant_edge] [food_edge]))) = - (pi / 2) \<and>
   atan2 (100 - 39) (50 - 50) = pi / 2 \<and> atan2 (100 - 40) (50 - 50) = pi / 2 \<and>
   - (pi / 2) \<noteq> pi / 2"
proof -
  have t0: "state ant_tired = Searching \<and> isAlive ant_tired"
    by (simp add: ant_tired_def ant0_def)
  have t1: "canCollect cfg0 food100 (position ant_tired)"
    by (simp add: canCollect_def distance_def Vector_magnitude_def Vector_subtract_def
          food100_def ant_tired_def ant0_def cfg0_def)
  have "Ant_update rnd_half cfg0 ant_tired (arena [ant_tired] [food100]) =
          (ant_tired\<lparr>energy := energy ant_tired - energyConsumption cfg0 * speedMultiplier cfg0,
                      isAlive := False\<rparr>, arena [ant_tired] [food100])"
    by (rule Ant_update_exhausted) (simp_all add: ant_tired_def ant0_def cfg0_def)
  then have t2: "Ant_update rnd_half cfg0 ant_tired (arena [ant_tired] [food100]) =
                   (ant_tired\<lparr>energy := 0, isAlive := False\<rparr>, arena [ant_tired] [food100])"
    by (simp add: ant_tired_def ant0_def cfg0_def)
  have t3: "state (fst (Ant_update rnd_half cfg0 ant_tired (arena [ant_tired] [food100]))) = Searching"
    and t4: "carryingFood (fst (Ant_update rnd_half cfg0 ant_tired (arena [ant_tired] [food100]))) = 0"
    unfolding t2 by (simp_all add: ant_tired_def ant0_def)
  have e0: "state ant_edge = Searching \<and> isAlive ant_edge"
    by (simp add: ant_edge_def ant0_def)
  have e1: "canCollect cfg0 food_edge (position ant_edge)"
    by (simp add: canCollect_def distance_def Vector_magnitude_def Vector_subtract_def
          food_edge_def food100_def ant_edge_def ant0_def cfg0_def)
  have f: "canAntCollectFood cfg0 (foodManager (arena_shrunk [ant_edge] [food_edge]))
             (position (ant_edge\<lparr>energy := energy ant_edge -
                energyConsumption cfg0 * speedMultiplier cfg0\<rparr>)) = Some 0"
    using e1 by (simp add: arena_shrunk_def arena_def)
  have b: "atan2 (100 - 39) (50 - 50) = pi / 2" and b': "atan2 (100 - 40) (50 - 50) = pi / 2"
    by (simp_all add: atan2_def)
  let ?a1 = "ant_edge\<lparr>energy := energy ant_edge - energyConsumption cfg0 * speedMultiplier cfg0\<rparr>"
  let ?S = "arena_shrunk [ant_edge] [food_edge]"
  obtain a2 s2 where st: "searchForFood rnd_half cfg0 ?a1 ?S = (a2, s2)"
    by (cases "searchForFood rnd_half cfg0 ?a1 ?S")
  have b61: "atan2 61 0 = pi / 2" by (simp add: atan2_def)
  have a2': "a2 = ?a1\<lparr>carryingFood := 1, state := Returning, direction := atan2 61 0\<rparr>"
    and s2: "width s2 = 100 \<and> height s2 = 50"
    using st [unfolded searchForFood_collects [OF f, of rnd_half]]
    by (auto simp: Let_def arena_shrunk_def arena_def food_edge_def food100_def ant_edge_def
          ant0_def createFoodParticleEffect_def)
  note a2 = a2' [unfolded b61]
  have st': "(case state ant_edge of
                Searching \<Rightarrow> searchForFood rnd_half cfg0 ?a1 ?S
              | Returning \<Rightarrow> returnToNest rnd_half cfg0 ?a1 ?S) = (a2, s2)"
    using e0 st by simp
  let ?a4 = "boundPosition (width s2) (height s2)
               (a2\<lparr>position :=
                  \<lparr>px = px (position a2) + cos (direction a2) *
                          ((if carryingFood a2 > 0 then speed a2 * carrierSpeed cfg0 else speed a2)
                             * speedMultiplier cfg0),
                   py = py (position a2) + sin (direction a2) *
                          ((if carryingFood a2 > 0 then speed a2 * carrierSpeed cfg0 else speed a2)
                             * speedMultiplier cfg0)\<rparr>\<rparr>)"
  have live: "isAlive ant_edge" "\<not> paused cfg0"
    "energy ant_edge - energyConsumption cfg0 * speedMultiplier cfg0 > 0"
    by (simp_all add: ant_edge_def ant0_def cfg0_def)
  note u = Ant_update_after_steering [OF live st' refl]
  have a4: "position ?a4 = \<lparr>px = 50, py = 40\<rparr> \<and> direction ?a4 = - (pi / 2)"
    by (simp add: a2 s2 boundPosition_def Let_def ant_edge_def ant0_def cfg0_def)
  have e2: "state (fst (Ant_update rnd_half cfg0 ant_edge ?S)) = Returning"
    using Ant_update_state_after_steering [OF live st'] by (simp add: a2)
  have e3: "position (fst (Ant_update rnd_half cfg0 ant_edge ?S)) = \<lparr>px = 50, py = 40\<rparr>"
    and e4: "direction (fst (Ant_update rnd_half cfg0 ant_edge ?S)) = - (pi / 2)"
    using u a4 by simp_all
  have ne: "- (pi / 2) \<noteq> pi / 2" using pi_gt_zero by linarith
  from t0 t1 t2 t3 t4 e0 e1 e2 e3 e4 b b' ne show ?thesis by blast
qed

text \<open>
  Claim C6, as amended. For a searching ant that passes the energy check of its tick
  (alive, simulation not paused, energy left after the cost of the tick) and is within
  collection range of a food source that is not depleted: \<open>canAntCollectFood\<close> finds
  the first such source of the list, the ant asks for one unit and carries what \<open>take\<close>
  grants, the smaller of 1 and the quantity left, which the source loses. When the
  granted amount is positive, the ant ends the tick in state Returning; \<open>searchForFood\<close>
  sets its heading to the bearing \<open>atan2 (nest.y - y) (nest.x - x)\<close> from its position to
  the nest; and when the move of the tick along that bearing stays inside the inset of 10
  units from the arena edges, the ant ends the tick at the moved position with that
  heading.
\<close>

theorem collecting_ant_turns_home:
  assumes src: "j < length (foodManager sim)"
               "canCollect cfg (foodManager sim ! j) (position ant)"
    and live: "state ant = Searching" "isAlive ant" "\<not> paused cfg"
              "energy ant - energyConsumption cfg * speedMultiplier cfg > 0"
  shows "\<exists>k\<le>j.
           canAntCollectFood cfg (foodManager sim) (position ant) = Some k \<and>
           canCollect cfg (foodManager sim ! k) (position ant) \<and>
           carryingFood (fst (Ant_update rnd cfg ant sim)) = min 1 (quantity (foodManager sim ! k)) \<and>
           quantity (foodManager (snd (Ant_update rnd cfg ant sim)) ! k) =
             quantity (foodManager sim ! k) - min 1 (quantity (foodManager sim ! k)) \<and>
           (min 1 (quantity (foodManager sim ! k)) > 0 \<longrightarrow>
              state (fst (Ant_update rnd cfg ant sim)) = Returning \<and>
              direction (fst (searchForFood rnd cfg
                 (ant\<lparr>energy := energy ant - energyConsumption cfg * speedMultiplier cfg\<rparr>) sim)) =
                atan2 (py (nestPosition ant) - py (position ant))
                      (px (nestPosition ant) - px (position ant)) \<and>
              (let bearing = atan2 (py (nestPosition ant) - py (position ant))
                                   (px (nestPosition ant) - px (position ant));
                   step = speed ant * carrierSpeed cfg * speedMultiplier cfg;
                   x' = px (position ant) + cos bearing * step;
                   y' = py (position ant) + sin bearing * step
               in 10 \<le> x' \<and> x' \<le> width sim - 10 \<and> 10 \<le> y' \<and> y' \<le> height sim - 10 \<longrightarrow>
                    position (fst (Ant_update rnd cfg ant sim)) = \<lparr>px = x', py = y'\<rparr> \<and>
                    direction (fst (Ant_update rnd cfg ant sim)) = bearing))"
proof -
  let ?a1 = "ant\<lparr>energy := energy ant - energyConsumption cfg * speedMultiplier cfg\<rparr>"
  let ?b = "atan2 (py (nestPosition ant) - py (position ant))
                  (px (nestPosition ant) - px (position ant))"
  from canAntCollectFood_finds [OF src]
  obtain k where kj: "k \<le> j"
    and f: "canAntCollectFood cfg (foodManager sim) (position ant) = Some k" by blast
  note kc = canAntCollectFood_Some [OF f]
  let ?g = "min 1 (quantity (foodManager sim ! k))"
  have f1: "canAntCollectFood cfg (foodManager sim) (position ?a1) = Some k" using f by simp
  note sf = searchForFood_collects [OF f1, of rnd]
  obtain a2 s2 where st: "searchForFood rnd cfg ?a1 sim = (a2, s2)"
    by (cases "searchForFood rnd cfg ?a1 sim")
  have c2: "carryingFood a2 = ?g" using st [unfolded sf] by (auto simp: Let_def split: if_splits)
  have q2: "quantity (foodManager s2 ! k) = quantity (foodManager sim ! k) - ?g"
    using st [unfolded sf] kc
    by (auto simp: Let_def createFoodParticleEffect_def Food_take_def split: if_splits)
  have w2: "width s2 = width sim \<and> height s2 = height sim"
    using st [unfolded sf] by (auto simp: Let_def createFoodParticleEffect_def split: if_splits)
  have r2: "state a2 = Returning \<and> direction a2 = ?b \<and> position a2 = position ant \<and>
            speed a2 = speed ant" if "?g > 0"
    using st [unfolded sf] that by (auto simp: Let_def)
  have st': "(case state ant of
                Searching \<Rightarrow> searchForFood rnd cfg ?a1 sim
              | Returning \<Rightarrow> returnToNest rnd cfg ?a1 sim) = (a2, s2)"
    using live(1) st by simp
  let ?a3 = "a2\<lparr>position :=
                  \<lparr>px = px (position a2) + cos (direction a2) *
                          ((if carryingFood a2 > 0 then speed a2 * carrierSpeed cfg else speed a2)
                             * speedMultiplier cfg),
                   py = py (position a2) + sin (direction a2) *
                          ((if carryingFood a2 > 0 then speed a2 * carrierSpeed cfg else speed a2)
                             * speedMultiplier cfg)\<rparr>\<rparr>"
  note u = Ant_update_after_steering [OF live(2,3,4) st' refl]
  note v = Ant_update_state_after_steering [OF live(2,3,4) st']
  have c: "carryingFood (fst (Ant_update rnd cfg ant sim)) = ?g" using v c2 by simp
  have q: "quantity (foodManager (snd (Ant_update rnd cfg ant sim)) ! k) =
             quantity (foodManager sim ! k) - ?g" using u q2 by simp
  have r: "state (fst (Ant_update rnd cfg ant sim)) = Returning \<and>
           direction (fst (searchForFood rnd cfg ?a1 sim)) = ?b" if "?g > 0"
    using v r2 [OF that] st by simp
  have m: "position (fst (Ant_update rnd cfg ant sim)) =
             \<lparr>px = px (position ant) + cos ?b * (speed ant * carrierSpeed cfg * speedMultiplier cfg),
              py = py (position ant) + sin ?b * (speed ant * carrierSpeed cfg * speedMultiplier cfg)\<rparr> \<and>
           direction (fst (Ant_update rnd cfg ant sim)) = ?b"
    if g: "?g > 0"
      and ib: "10 \<le> px (position ant) + cos ?b * (speed ant * carrierSpeed cfg * speedMultiplier cfg)"
              "px (position ant) + cos ?b * (speed ant * carrierSpeed cfg * speedMultiplier cfg)
                 \<le> width sim - 10"
              "10 \<le> py (position ant) + sin ?b * (speed ant * carrierSpeed cfg * speedMultiplier cfg)"
              "py (position ant) + sin ?b * (speed ant * carrierSpeed cfg * speedMultiplier cfg)
                 \<le> height sim - 10"
  proof -
    have a3: "position ?a3 =
        \<lparr>px = px (position ant) + cos ?b * (speed ant * carrierSpeed cfg * speedMultiplier cfg),
         py = py (position ant) + sin ?b * (speed ant * carrierSpeed cfg * speedMultiplier cfg)\<rparr>"
      and d3: "direction ?a3 = ?b"
      using r2 [OF g] c2 g by simp_all
    have "boundPosition (width s2) (height s2) ?a3 = ?a3"
      using ib w2 r2 [OF g] c2 g by (intro boundPosition_inside) simp_all
    with u a3 d3 show ?thesis by simp
  qed
  show ?thesis
  proof (intro exI [of _ k] conjI impI)
    show "k \<le> j" by (rule kj)
    show "canAntCollectFood cfg (foodManager sim) (position ant) = Some k" by (rule f)
    show "canCollect cfg (foodManager sim ! k) (position ant)" using kc by simp
    show "carryingFood (fst (Ant_update rnd cfg ant sim)) = ?g" by (rule c)
    show "quantity (foodManager (snd (Ant_update rnd cfg ant sim)) ! k) =
            quantity (foodManager sim ! k) - ?g" by (rule q)
  next
    assume g: "0 < ?g"
    show "state (fst (Ant_update rnd cfg ant sim)) = Returning" using r [OF g] by simp
    show "direction (fst (searchForFood rnd cfg ?a1 sim)) = ?b" using r [OF g] by simp
    show "let bearing = ?b;
              step = speed ant * carrierSpeed cfg * speedMultiplier cfg;
              x' = px (position ant) + cos bearing * step;
              y' = py (position ant) + sin bearing * step
          in 10 \<le> x' \<and> x' \<le> width sim - 10 \<and> 10 \<le> y' \<and> y' \<le> height sim - 10 \<longrightarrow>
               position (fst (Ant_update rnd cfg ant sim)) = \<lparr>px = x', py = y'\<rparr> \<and>
               direction (fst (Ant_update rnd cfg ant sim)) = bearing"
      unfolding Let_def using m [OF g] by blast
  qed
qed

theorem collecting_ant_turns_home_witness:
  "0 < length (foodManager (arena [ant0] [food100])) \<and>
   canCollect cfg0 (foodManager (arena [ant0] [food100]) ! 0) (position ant0) \<and>
   state ant0 = Searching \<and> isAlive ant0 \<and> \<not> paused cfg0 \<and>
   energy ant0 - energyConsumption cfg0 * speedMultiplier cfg0 > 0 \<and>
   canAntCollectFood cfg0 (foodManager (arena [ant0] [food100])) (position ant0) = Some 0 \<and>
   carryingFood (fst (Ant_update rnd_half cfg0 ant0 (arena [ant0] [food100]))) = 1 \<and>
   quantity (foodManager (snd (Ant_update rnd_half cfg0 ant0 (arena [ant0] [food100]))) ! 0) = 99 \<and>
   state (fst (Ant_update rnd_half cfg0 ant0 (arena [ant0] [food100]))) = Returning \<and>
   direction (fst (Ant_update rnd_half cfg0 ant0 (arena [ant0] [food100]))) = atan2 5 30 \<and>
   canCollect cfg0 (foodManager (arena [ant0] [food_half]) ! 0) (position ant0) \<and>
   carryingFood (fst (Ant_update rnd_half cfg0 ant0 (arena [ant0] [food_half]))) = 0.5"
proof -
  let ?A = "arena [ant0] [food100]" and ?H = "arena [ant0] [food_half]"
  have j: "0 < length (foodManager ?A)" and j': "0 < length (foodManager ?H)"
    by (simp_all add: arena_def)
  have c: "canCollect cfg0 (foodManager ?A ! 0) (position ant0)"
    by (simp add: arena_def ant0_def food100_def canCollect_def distance_def Vector_magnitude_def
          Vector_subtract_def cfg0_def)
  have c': "canCollect cfg0 (foodManager ?H ! 0) (position ant0)"
    by (simp add: arena_def ant0_def food_half_def food100_def canCollect_def distance_def
          Vector_magnitude_def Vector_subtract_def cfg0_def)
  have l: "state ant0 = Searching" "isAlive ant0" "\<not> paused cfg0"
    "energy ant0 - energyConsumption cfg0 * speedMultiplier cfg0 > 0"
    by (simp_all add: ant0_def cfg0_def)
  have q: "quantity (foodManager ?A ! 0) = 100" by (simp add: arena_def food100_def)
  have q': "quantity (foodManager ?H ! 0) = 0.5" by (simp add: arena_def food_half_def food100_def)
  have b: "atan2 (py (nestPosition ant0) - py (position ant0))
                 (px (nestPosition ant0) - px (position ant0)) = atan2 5 30"
    by (simp add: ant0_def)
  have b2: "atan2 (py (nestPosition ant0) - 20) (px (nestPosition ant0) - 20) = atan2 5 30"
    by (simp add: ant0_def)
  have s: "speed ant0 * carrierSpeed cfg0 * speedMultiplier cfg0 = 1.4"
    and p: "px (position ant0) = 20" "py (position ant0) = 20"
    and w: "width ?A = 100" "height ?A = 50"
    by (simp_all add: ant0_def cfg0_def arena_def)
  have i1: "10 \<le> 20 + cos (atan2 5 30) * 1.4"
    using cos_ge_minus_one [of "atan2 5 30"] by linarith
  have i2: "20 + cos (atan2 5 30) * 1.4 \<le> 100 - 10"
    using cos_le_one [of "atan2 5 30"] by linarith
  have i3: "10 \<le> 20 + sin (atan2 5 30) * 1.4"
    using sin_ge_minus_one [of "atan2 5 30"] by linarith
  have i4: "20 + sin (atan2 5 30) * 1.4 \<le> 50 - 10"
    using sin_le_one [of "atan2 5 30"] by linarith
  from i1 i2 i3 i4
  have ib: "10 \<le> 20 + cos (atan2 5 30) * 1.4 \<and> 20 + cos (atan2 5 30) * 1.4 \<le> 100 - 10 \<and>
            10 \<le> 20 + sin (atan2 5 30) * 1.4 \<and> 20 + sin (atan2 5 30) * 1.4 \<le> 50 - 10"
    by blast
  from collecting_ant_turns_home [OF j c l, of rnd_half, unfolded Let_def b s p w b2]
  obtain k where k: "k \<le> 0"
    and r: "canAntCollectFood cfg0 (foodManager ?A) (position ant0) = Some k"
      "carryingFood (fst (Ant_update rnd_half cfg0 ant0 ?A)) = min 1 (quantity (foodManager ?A ! k))"
      "quantity (foodManager (snd (Ant_update rnd_half cfg0 ant0 ?A)) ! k) =
         quantity (foodManager ?A ! k) - min 1 (quantity (foodManager ?A ! k))"
    and g: "min 1 (quantity (foodManager ?A ! k)) > 0 \<longrightarrow>
      state (fst (Ant_update rnd_half cfg0 ant0 ?A)) = Returning \<and>
      direction (fst (searchForFood rnd_half cfg0
         (ant0\<lparr>energy := energy ant0 - energyConsumption cfg0 * speedMultiplier cfg0\<rparr>) ?A)) =
        atan2 5 30 \<and>
      (10 \<le> 20 + cos (atan2 5 30) * 1.4 \<and> 20 + cos (atan2 5 30) * 1.4 \<le> 100 - 10 \<and>
       10 \<le> 20 + sin (atan2 5 30) * 1.4 \<and> 20 + sin (atan2 5 30) * 1.4 \<le> 50 - 10 \<longrightarrow>
         position (fst (Ant_update rnd_half cfg0 ant0 ?A)) =
           \<lparr>px = 20 + cos (atan2 5 30) * 1.4, py = 20 + sin (atan2 5 30) * 1.4\<rparr> \<and>
         direction (fst (Ant_update rnd_half cfg0 ant0 ?A)) = atan2 5 30)"
    by (elim exE conjE) (rule that)
  have k0: "k = 0" using k by simp
  have g1: "min 1 (quantity (foodManager ?A ! k)) > 0" by (simp add: k0 q)
  note g2 = g [THEN mp, OF g1]
  note r4 = g2 [THEN conjunct1]
  note r5 = g2 [THEN conjunct2, THEN conjunct2, THEN mp, OF ib, THEN conjunct2]
  have r1: "canAntCollectFood cfg0 (foodManager ?A) (position ant0) = Some 0"
    and r2: "carryingFood (fst (Ant_update rnd_half cfg0 ant0 ?A)) = 1"
    and r3: "quantity (foodManager (snd (Ant_update rnd_half cfg0 ant0 ?A)) ! 0) = 99"
    using r by (simp_all add: k0 q)
  from collecting_ant_turns_home [OF j' c' l, of rnd_half]
  obtain k' where k': "k' \<le> 0"
    and "carryingFood (fst (Ant_update rnd_half cfg0 ant0 ?H)) =
           min 1 (quantity (foodManager ?H ! k'))"
    by (elim exE conjE) (rule that)
  then have h: "carryingFood (fst (Ant_update rnd_half cfg0 ant0 ?H)) = 0.5"
    by (simp add: q')
  from j c l r1 r2 r3 r4 r5 c' h show ?thesis by blast
qed

end
